theory Spec2Isabelle
  imports Main "HOL-Library.Word"
begin

section \<open>OrbitOS: password hashing, seed data and the role-based permission model\<close>

text \<open>
  The development follows the C\# sources of \<^verbatim>\<open>orbitos-api\<close>:
  \<^verbatim>\<open>PasswordHasher.cs\<close>, \<^verbatim>\<open>SeedIds.cs\<close>, \<^verbatim>\<open>DataSeeder.cs\<close>, the entity classes, the
  constants \<^verbatim>\<open>SystemFunctions\<close> and \<^verbatim>\<open>SystemRoles\<close>, and the migration
  \<^verbatim>\<open>AddUserRoleAndUpdateUser\<close> that creates the table \<^verbatim>\<open>UserRoles\<close>.
\<close>

subsection \<open>Errors\<close>

text \<open>
  Exceptions of the .NET code are values. \<open>DbUpdateException\<close> is what
  \<^verbatim>\<open>SaveChangesAsync\<close> throws when the database rejects a row.
\<close>

datatype error =
    FormatException
  | ArgumentOutOfRangeException
  | ArgumentException
  | DbUpdateException

subsection \<open>PasswordHasher.cs\<close>

type_synonym byte = "8 word"

text \<open>
  The framework classes the hasher calls are not part of the repository; they are
  parameters of the model. \<open>randomByte\<close> is the entropy source behind
  \<^verbatim>\<open>RandomNumberGenerator.GetBytes\<close>, \<open>pbkdf2Byte password salt iterations i\<close> is byte \<open>i\<close>
  of the key stream of \<^verbatim>\<open>Rfc2898DeriveBytes\<close> with SHA256, and the last two are
  \<^verbatim>\<open>Convert.ToBase64String\<close> and \<^verbatim>\<open>Convert.FromBase64String\<close> (\<open>None\<close>: the
  string is not valid Base64 and \<^verbatim>\<open>FormatException\<close> is thrown).
\<close>

record Framework =
  randomByte :: "nat \<Rightarrow> byte"
  pbkdf2Byte :: "string \<Rightarrow> byte list \<Rightarrow> nat \<Rightarrow> nat \<Rightarrow> byte"
  ToBase64String :: "byte list \<Rightarrow> string"
  FromBase64String :: "string \<Rightarrow> byte list option"

definition SaltSize :: nat where "SaltSize = 16"
definition HashSize :: nat where "HashSize = 32"
definition Iterations :: nat where "Iterations = 100000"

text \<open>\<^verbatim>\<open>RandomNumberGenerator.GetBytes(n)\<close> and \<^verbatim>\<open>pbkdf2.GetBytes(n)\<close>: exactly \<open>n\<close> bytes.\<close>

definition RandomNumberGenerator_GetBytes :: "Framework \<Rightarrow> nat \<Rightarrow> byte list" where
  "RandomNumberGenerator_GetBytes fw n = map (randomByte fw) [0..<n]"

definition Rfc2898DeriveBytes_GetBytes ::
  "Framework \<Rightarrow> string \<Rightarrow> byte list \<Rightarrow> nat \<Rightarrow> nat \<Rightarrow> byte list" where
  "Rfc2898DeriveBytes_GetBytes fw password salt iters n =
     map (pbkdf2Byte fw password salt iters) [0..<n]"

text \<open>
  \<^verbatim>\<open>Array.Copy(src, srcIndex, dst, dstIndex, length)\<close>: throws when either range leaves its
  array, otherwise overwrites \<open>length\<close> cells of \<open>dst\<close>.
\<close>

definition Array_Copy ::
  "byte list \<Rightarrow> nat \<Rightarrow> byte list \<Rightarrow> nat \<Rightarrow> nat \<Rightarrow> error + byte list" where
  "Array_Copy src srcIndex dst dstIndex len =
     (if length src < srcIndex + len \<or> length dst < dstIndex + len
      then Inl ArgumentException
      else Inr (take dstIndex dst @ take len (drop srcIndex src) @ drop (dstIndex + len) dst))"

text \<open>\<^verbatim>\<open>CryptographicOperations.FixedTimeEquals\<close>: equal length and equal content.\<close>

definition FixedTimeEquals :: "byte list \<Rightarrow> byte list \<Rightarrow> bool" where
  "FixedTimeEquals a b = (length a = length b \<and> a = b)"

definition HashPassword :: "Framework \<Rightarrow> string \<Rightarrow> error + string" where
  "HashPassword fw password =
     (let salt = RandomNumberGenerator_GetBytes fw SaltSize;
          hash = Rfc2898DeriveBytes_GetBytes fw password salt Iterations HashSize;
          hashBytes = replicate (SaltSize + HashSize) 0
      in case Array_Copy salt 0 hashBytes 0 SaltSize of
           Inl e \<Rightarrow> Inl e
         | Inr hashBytes1 \<Rightarrow>
             (case Array_Copy hash 0 hashBytes1 SaltSize HashSize of
                Inl e \<Rightarrow> Inl e
              | Inr hashBytes2 \<Rightarrow> Inr (ToBase64String fw hashBytes2)))"

text \<open>
  The range expressions \<^verbatim>\<open>hashBytes[..SaltSize]\<close> and \<^verbatim>\<open>hashBytes[SaltSize..]\<close> throw
  \<^verbatim>\<open>ArgumentOutOfRangeException\<close> on an array shorter than \<open>SaltSize\<close>.
\<close>

definition VerifyPassword :: "Framework \<Rightarrow> string \<Rightarrow> string \<Rightarrow> error + bool" where
  "VerifyPassword fw password passwordHash =
     (case FromBase64String fw passwordHash of
        None \<Rightarrow> Inl FormatException
      | Some hashBytes \<Rightarrow>
          (if length hashBytes < SaltSize then Inl ArgumentOutOfRangeException
           else
             let salt = take SaltSize hashBytes;
                 storedHash = drop SaltSize hashBytes;
                 computedHash = Rfc2898DeriveBytes_GetBytes fw password salt Iterations HashSize
             in Inr (FixedTimeEquals computedHash storedHash)))"

subsection \<open>Entities\<close>

text \<open>
  A \<^verbatim>\<open>Guid\<close> is a 128-bit value, a \<^verbatim>\<open>DateTime\<close> a number of ticks. Every entity class
  derives from \<^verbatim>\<open>BaseEntity\<close>, whose fields are those listed in the API development
  guide of the repository (\<^verbatim>\<open>BaseEntity.cs\<close> itself is not among the sources);
  \<open>DeletedAt\<close> is the soft-delete mark. Nullable reference and value types are options.
\<close>

type_synonym Guid = "128 word"
type_synonym DateTime = int

record BaseEntity =
  Id :: Guid
  CreatedAt :: DateTime
  UpdatedAt :: DateTime
  CreatedBy :: "Guid option"
  UpdatedBy :: "Guid option"
  DeletedAt :: "DateTime option"

record Organization = BaseEntity +
  Name :: string
  Slug :: string
  Description :: "string option"
  LogoUrl :: "string option"
  AzureAdTenantId :: "string option"

text \<open>
  \<^verbatim>\<open>User.cs\<close> and \<^verbatim>\<open>Role.cs\<close> are not among the sources: the fields are the ones the
  seeder, the login controller and the migration use.
\<close>

record User = BaseEntity +
  Email :: string
  DisplayName :: string
  FirstName :: "string option"
  LastName :: "string option"
  AzureAdObjectId :: "string option"
  PasswordHash :: "string option"
  LastLoginAt :: "DateTime option"

datatype MembershipRole = Member | Admin | Owner

record OrganizationMembership = BaseEntity +
  UserId :: Guid
  OrganizationId :: Guid
  Role :: MembershipRole

record Function = BaseEntity +
  Name :: string
  Description :: "string option"
  Purpose :: "string option"
  Category :: "string option"
  OrganizationId :: Guid

record Role = BaseEntity +
  Name :: string
  Description :: "string option"
  Purpose :: "string option"
  Department :: "string option"
  OrganizationId :: Guid

record RoleFunction = BaseEntity +
  RoleId :: Guid
  FunctionId :: Guid

record UserRole = BaseEntity +
  UserId :: Guid
  RoleId :: Guid
  OrganizationId :: Guid

subsection \<open>The database\<close>

text \<open>
  \<^verbatim>\<open>OrbitOSDbContext\<close>: one table per \<^verbatim>\<open>DbSet\<close> the seeder touches, the rows in
  insertion order.
\<close>

record OrbitOSDbContext =
  Organizations :: "Organization list"
  Users :: "User list"
  OrganizationMemberships :: "OrganizationMembership list"
  Functions :: "Function list"
  Roles :: "Role list"
  RoleFunctions :: "RoleFunction list"
  UserRoles :: "UserRole list"

definition emptyDb :: OrbitOSDbContext where
  "emptyDb = \<lparr>Organizations = [], Users = [], OrganizationMemberships = [], Functions = [],
              Roles = [], RoleFunctions = [], UserRoles = []\<rparr>"

text \<open>
  \<^verbatim>\<open>table.AnyAsync(x => x.Id == id)\<close>. The sources configure no query filter for
  these tables, so a soft-deleted row counts like any other.
\<close>

definition AnyWithId :: "Guid \<Rightarrow> 'a BaseEntity_scheme list \<Rightarrow> bool" where
  "AnyWithId g rows = (g \<in> set (map Id rows))"

text \<open>
  What \<^verbatim>\<open>SaveChangesAsync\<close> accepts. \<open>Id\<close> is the primary key of every table: a batch
  of added rows is rejected when two of them share an \<open>Id\<close> or one of them has the \<open>Id\<close>
  of a stored row. The configuration of the context (\<^verbatim>\<open>OrbitOSDbContext.cs\<close>) is not
  among the sources, so the primary key is the only constraint modelled for the tables
  other than \<^verbatim>\<open>UserRoles\<close>.
\<close>

definition primaryKeyAccepts ::
  "'a BaseEntity_scheme list \<Rightarrow> 'a BaseEntity_scheme list \<Rightarrow> bool" where
  "primaryKeyAccepts table added =
     (distinct (map Id added) \<and> set (map Id added) \<inter> set (map Id table) = {})"

text \<open>
  The table \<^verbatim>\<open>UserRoles\<close> as the migration \<^verbatim>\<open>AddUserRoleAndUpdateUser.Up\<close> creates it:
  primary key \<^verbatim>\<open>PK_UserRoles\<close> on \<open>Id\<close>, the foreign keys
  \<^verbatim>\<open>FK_UserRoles_Organizations_OrganizationId\<close>, \<^verbatim>\<open>FK_UserRoles_Roles_RoleId\<close> and
  \<^verbatim>\<open>FK_UserRoles_Users_UserId\<close>, each to the \<open>Id\<close> of the principal table, and the unique
  index \<^verbatim>\<open>IX_UserRoles_UserId_RoleId_OrganizationId\<close>.
\<close>

definition sameTriple :: "UserRole \<Rightarrow> UserRole \<Rightarrow> bool" where
  "sameTriple a b =
     (UserRole.UserId a = UserRole.UserId b \<and> UserRole.RoleId a = UserRole.RoleId b \<and>
      UserRole.OrganizationId a = UserRole.OrganizationId b)"

definition userRoleAccepts :: "OrbitOSDbContext \<Rightarrow> UserRole \<Rightarrow> bool" where
  "userRoleAccepts db ur =
     (primaryKeyAccepts (UserRoles db) [ur] \<and>
      AnyWithId (UserRole.OrganizationId ur) (Organizations db) \<and>
      AnyWithId (UserRole.RoleId ur) (Roles db) \<and>
      AnyWithId (UserRole.UserId ur) (Users db) \<and>
      filter (sameTriple ur) (UserRoles db) = [])"

text \<open>
  \<^verbatim>\<open>_context.UserRoles.Add(userRole); await _context.SaveChangesAsync()\<close>: the one write
  path to the table. A rejected row throws and is not stored.
\<close>

definition AddUserRole :: "OrbitOSDbContext \<Rightarrow> UserRole \<Rightarrow> error + OrbitOSDbContext" where
  "AddUserRole db ur =
     (if userRoleAccepts db ur then Inr (db\<lparr>UserRoles := UserRoles db @ [ur]\<rparr>)
      else Inl DbUpdateException)"

text \<open>
  The junction table \<^verbatim>\<open>RoleFunctions\<close> read as pairs (role, function): the role has a
  row for the function.
\<close>

definition grantedPairs :: "OrbitOSDbContext \<Rightarrow> (Guid \<times> Guid) list" where
  "grantedPairs db =
     zip (map RoleFunction.RoleId (RoleFunctions db)) (map FunctionId (RoleFunctions db))"

text \<open>The database after a call that may have thrown: a failed save stores nothing.\<close>

definition stateAfter :: "OrbitOSDbContext \<Rightarrow> error + OrbitOSDbContext \<Rightarrow> OrbitOSDbContext" where
  "stateAfter db r = (case r of Inl e \<Rightarrow> db | Inr db' \<Rightarrow> db')"

subsection \<open>SeedIds.cs\<close>

definition SeedIds_Organizations_Rugertek :: Guid where
  "SeedIds_Organizations_Rugertek = 0x11111111111111111111111111111111"

definition SeedIds_Users_Rodrigo :: Guid where
  "SeedIds_Users_Rodrigo = 0x22222222222222222222222222222222"

definition SeedIds_Roles_SuperAdmin :: Guid where
  "SeedIds_Roles_SuperAdmin = 0x33333333333333333333333333333301"

definition SeedIds_Roles_UserAdmin :: Guid where
  "SeedIds_Roles_UserAdmin = 0x33333333333333333333333333333302"

definition SeedIds_Roles_OrgAdmin :: Guid where
  "SeedIds_Roles_OrgAdmin = 0x33333333333333333333333333333303"

definition SeedIds_Roles_Viewer :: Guid where
  "SeedIds_Roles_Viewer = 0x33333333333333333333333333333304"

definition SeedIds_Functions_UsersView :: Guid where
  "SeedIds_Functions_UsersView = 0x44444444444444444444444444444401"

definition SeedIds_Functions_UsersCreate :: Guid where
  "SeedIds_Functions_UsersCreate = 0x44444444444444444444444444444402"

definition SeedIds_Functions_UsersUpdate :: Guid where
  "SeedIds_Functions_UsersUpdate = 0x44444444444444444444444444444403"

definition SeedIds_Functions_UsersDelete :: Guid where
  "SeedIds_Functions_UsersDelete = 0x44444444444444444444444444444404"

definition SeedIds_Functions_UsersRolesManage :: Guid where
  "SeedIds_Functions_UsersRolesManage = 0x44444444444444444444444444444405"

definition SeedIds_Functions_UsersRolesView :: Guid where
  "SeedIds_Functions_UsersRolesView = 0x44444444444444444444444444444406"

definition SeedIds_Functions_UsersInvite :: Guid where
  "SeedIds_Functions_UsersInvite = 0x44444444444444444444444444444407"

definition SeedIds_Functions_UsersDeactivate :: Guid where
  "SeedIds_Functions_UsersDeactivate = 0x44444444444444444444444444444408"

definition SeedIds_Functions_UsersReactivate :: Guid where
  "SeedIds_Functions_UsersReactivate = 0x44444444444444444444444444444409"

definition SeedIds_Functions_UsersActivityView :: Guid where
  "SeedIds_Functions_UsersActivityView = 0x44444444444444444444444444444410"

definition SeedIds_Functions_OrgView :: Guid where
  "SeedIds_Functions_OrgView = 0x44444444444444444444444444444501"

definition SeedIds_Functions_OrgUpdate :: Guid where
  "SeedIds_Functions_OrgUpdate = 0x44444444444444444444444444444502"

definition SeedIds_Functions_OrgSettingsManage :: Guid where
  "SeedIds_Functions_OrgSettingsManage = 0x44444444444444444444444444444503"

definition SeedIds_Functions_OrgSettingsView :: Guid where
  "SeedIds_Functions_OrgSettingsView = 0x44444444444444444444444444444504"

definition SeedIds_Functions_OrgBillingManage :: Guid where
  "SeedIds_Functions_OrgBillingManage = 0x44444444444444444444444444444505"

definition SeedIds_Functions_OrgBillingView :: Guid where
  "SeedIds_Functions_OrgBillingView = 0x44444444444444444444444444444506"

definition SeedIds_Functions_OrgIntegrationsManage :: Guid where
  "SeedIds_Functions_OrgIntegrationsManage = 0x44444444444444444444444444444507"

definition SeedIds_Functions_OrgIntegrationsView :: Guid where
  "SeedIds_Functions_OrgIntegrationsView = 0x44444444444444444444444444444508"

definition SeedIds_Functions_OrgApiKeysManage :: Guid where
  "SeedIds_Functions_OrgApiKeysManage = 0x44444444444444444444444444444509"

definition SeedIds_Functions_OrgApiKeysView :: Guid where
  "SeedIds_Functions_OrgApiKeysView = 0x44444444444444444444444444444510"

definition SeedIds_Functions_OrgWebhooksManage :: Guid where
  "SeedIds_Functions_OrgWebhooksManage = 0x44444444444444444444444444444511"

definition SeedIds_Functions_OrgWebhooksView :: Guid where
  "SeedIds_Functions_OrgWebhooksView = 0x44444444444444444444444444444512"

definition SeedIds_Functions_OrgAuditLogView :: Guid where
  "SeedIds_Functions_OrgAuditLogView = 0x44444444444444444444444444444513"

definition SeedIds_Functions_OrgDataExport :: Guid where
  "SeedIds_Functions_OrgDataExport = 0x44444444444444444444444444444514"

definition SeedIds_Functions_RolesView :: Guid where
  "SeedIds_Functions_RolesView = 0x44444444444444444444444444444601"

definition SeedIds_Functions_RolesCreate :: Guid where
  "SeedIds_Functions_RolesCreate = 0x44444444444444444444444444444602"

definition SeedIds_Functions_RolesUpdate :: Guid where
  "SeedIds_Functions_RolesUpdate = 0x44444444444444444444444444444603"

definition SeedIds_Functions_RolesDelete :: Guid where
  "SeedIds_Functions_RolesDelete = 0x44444444444444444444444444444604"

definition SeedIds_Functions_RolesFunctionsAssign :: Guid where
  "SeedIds_Functions_RolesFunctionsAssign = 0x44444444444444444444444444444605"

definition SeedIds_Functions_FunctionsView :: Guid where
  "SeedIds_Functions_FunctionsView = 0x44444444444444444444444444444701"

definition SeedIds_Functions_FunctionsCreate :: Guid where
  "SeedIds_Functions_FunctionsCreate = 0x44444444444444444444444444444702"

definition SeedIds_Functions_FunctionsUpdate :: Guid where
  "SeedIds_Functions_FunctionsUpdate = 0x44444444444444444444444444444703"

definition SeedIds_Functions_FunctionsDelete :: Guid where
  "SeedIds_Functions_FunctionsDelete = 0x44444444444444444444444444444704"

definition SeedIds_Memberships_RodrigoRugertek :: Guid where
  "SeedIds_Memberships_RodrigoRugertek = 0x55555555555555555555555555555501"

definition SeedIds_UserRoles_RodrigoSuperAdmin :: Guid where
  "SeedIds_UserRoles_RodrigoSuperAdmin = 0x66666666666666666666666666666601"

subsection \<open>SystemFunctions and SystemRoles\<close>

definition SystemFunctions_UserManagement_Category :: string where
  "SystemFunctions_UserManagement_Category = ''User Management''"

definition SystemFunctions_UserManagement_ViewUsers :: string where
  "SystemFunctions_UserManagement_ViewUsers = ''users.view''"

definition SystemFunctions_UserManagement_CreateUsers :: string where
  "SystemFunctions_UserManagement_CreateUsers = ''users.create''"

definition SystemFunctions_UserManagement_UpdateUsers :: string where
  "SystemFunctions_UserManagement_UpdateUsers = ''users.update''"

definition SystemFunctions_UserManagement_DeleteUsers :: string where
  "SystemFunctions_UserManagement_DeleteUsers = ''users.delete''"

definition SystemFunctions_UserManagement_ManageUserRoles :: string where
  "SystemFunctions_UserManagement_ManageUserRoles = ''users.roles.manage''"

definition SystemFunctions_UserManagement_ViewUserRoles :: string where
  "SystemFunctions_UserManagement_ViewUserRoles = ''users.roles.view''"

definition SystemFunctions_UserManagement_InviteUsers :: string where
  "SystemFunctions_UserManagement_InviteUsers = ''users.invite''"

definition SystemFunctions_UserManagement_DeactivateUsers :: string where
  "SystemFunctions_UserManagement_DeactivateUsers = ''users.deactivate''"

definition SystemFunctions_UserManagement_ReactivateUsers :: string where
  "SystemFunctions_UserManagement_ReactivateUsers = ''users.reactivate''"

definition SystemFunctions_UserManagement_ViewUserActivity :: string where
  "SystemFunctions_UserManagement_ViewUserActivity = ''users.activity.view''"

definition SystemFunctions_OrganizationManagement_Category :: string where
  "SystemFunctions_OrganizationManagement_Category = ''Organization Management''"

definition SystemFunctions_OrganizationManagement_ViewOrganization :: string where
  "SystemFunctions_OrganizationManagement_ViewOrganization = ''organization.view''"

definition SystemFunctions_OrganizationManagement_UpdateOrganization :: string where
  "SystemFunctions_OrganizationManagement_UpdateOrganization = ''organization.update''"

definition SystemFunctions_OrganizationManagement_ManageSettings :: string where
  "SystemFunctions_OrganizationManagement_ManageSettings = ''organization.settings.manage''"

definition SystemFunctions_OrganizationManagement_ViewSettings :: string where
  "SystemFunctions_OrganizationManagement_ViewSettings = ''organization.settings.view''"

definition SystemFunctions_OrganizationManagement_ManageBilling :: string where
  "SystemFunctions_OrganizationManagement_ManageBilling = ''organization.billing.manage''"

definition SystemFunctions_OrganizationManagement_ViewBilling :: string where
  "SystemFunctions_OrganizationManagement_ViewBilling = ''organization.billing.view''"

definition SystemFunctions_OrganizationManagement_ManageIntegrations :: string where
  "SystemFunctions_OrganizationManagement_ManageIntegrations = ''organization.integrations.manage''"

definition SystemFunctions_OrganizationManagement_ViewIntegrations :: string where
  "SystemFunctions_OrganizationManagement_ViewIntegrations = ''organization.integrations.view''"

definition SystemFunctions_OrganizationManagement_ManageApiKeys :: string where
  "SystemFunctions_OrganizationManagement_ManageApiKeys = ''organization.apikeys.manage''"

definition SystemFunctions_OrganizationManagement_ViewApiKeys :: string where
  "SystemFunctions_OrganizationManagement_ViewApiKeys = ''organization.apikeys.view''"

definition SystemFunctions_OrganizationManagement_ManageWebhooks :: string where
  "SystemFunctions_OrganizationManagement_ManageWebhooks = ''organization.webhooks.manage''"

definition SystemFunctions_OrganizationManagement_ViewWebhooks :: string where
  "SystemFunctions_OrganizationManagement_ViewWebhooks = ''organization.webhooks.view''"

definition SystemFunctions_OrganizationManagement_ViewAuditLog :: string where
  "SystemFunctions_OrganizationManagement_ViewAuditLog = ''organization.auditlog.view''"

definition SystemFunctions_OrganizationManagement_ExportData :: string where
  "SystemFunctions_OrganizationManagement_ExportData = ''organization.data.export''"

definition SystemFunctions_RoleManagement_Category :: string where
  "SystemFunctions_RoleManagement_Category = ''Role Management''"

definition SystemFunctions_RoleManagement_ViewRoles :: string where
  "SystemFunctions_RoleManagement_ViewRoles = ''roles.view''"

definition SystemFunctions_RoleManagement_CreateRoles :: string where
  "SystemFunctions_RoleManagement_CreateRoles = ''roles.create''"

definition SystemFunctions_RoleManagement_UpdateRoles :: string where
  "SystemFunctions_RoleManagement_UpdateRoles = ''roles.update''"

definition SystemFunctions_RoleManagement_DeleteRoles :: string where
  "SystemFunctions_RoleManagement_DeleteRoles = ''roles.delete''"

definition SystemFunctions_RoleManagement_AssignFunctions :: string where
  "SystemFunctions_RoleManagement_AssignFunctions = ''roles.functions.assign''"

definition SystemFunctions_FunctionManagement_Category :: string where
  "SystemFunctions_FunctionManagement_Category = ''Function Management''"

definition SystemFunctions_FunctionManagement_ViewFunctions :: string where
  "SystemFunctions_FunctionManagement_ViewFunctions = ''functions.view''"

definition SystemFunctions_FunctionManagement_CreateFunctions :: string where
  "SystemFunctions_FunctionManagement_CreateFunctions = ''functions.create''"

definition SystemFunctions_FunctionManagement_UpdateFunctions :: string where
  "SystemFunctions_FunctionManagement_UpdateFunctions = ''functions.update''"

definition SystemFunctions_FunctionManagement_DeleteFunctions :: string where
  "SystemFunctions_FunctionManagement_DeleteFunctions = ''functions.delete''"

definition SystemRoles_SuperAdmin :: string where
  "SystemRoles_SuperAdmin = ''Super Administrator''"

definition SystemRoles_UserAdmin :: string where
  "SystemRoles_UserAdmin = ''User Administrator''"

definition SystemRoles_OrgAdmin :: string where
  "SystemRoles_OrgAdmin = ''Organization Administrator''"

definition SystemRoles_Viewer :: string where
  "SystemRoles_Viewer = ''Viewer''"

subsection \<open>DataSeeder.cs\<close>

text \<open>
  What a run of the seeder reads from its surroundings: \<open>utcNow k\<close> is the value of the
  \<open>k\<close>-th \<^verbatim>\<open>DateTime.UtcNow\<close> expression of \<^verbatim>\<open>DataSeeder.cs\<close> in source order (each is
  evaluated at most once in a run), \<open>newGuid k\<close> the result of the \<open>k\<close>-th call of
  \<^verbatim>\<open>Guid.NewGuid()\<close>.
\<close>

record SeedEnv =
  utcNow :: "nat \<Rightarrow> DateTime"
  newGuid :: "nat \<Rightarrow> Guid"

text \<open>
  The rows the seeder builds with object initialisers; properties the initialiser does
  not set keep the default \<^verbatim>\<open>null\<close>.
\<close>

definition seedOrganization :: "SeedEnv \<Rightarrow> Organization" where
  "seedOrganization env =
     \<lparr>Id = SeedIds_Organizations_Rugertek,
      CreatedAt = utcNow env 0, UpdatedAt = utcNow env 1,
      CreatedBy = None, UpdatedBy = None, DeletedAt = None,
      Organization.Name = ''Rugertek'',
      Slug = ''rugertek'',
      Organization.Description = Some ''Rugertek - AI-Native Business Solutions'',
      LogoUrl = None, AzureAdTenantId = None\<rparr>"

definition seedUser :: "SeedEnv \<Rightarrow> string \<Rightarrow> User" where
  "seedUser env passwordHash =
     \<lparr>Id = SeedIds_Users_Rodrigo,
      CreatedAt = utcNow env 2, UpdatedAt = utcNow env 3,
      CreatedBy = None, UpdatedBy = None, DeletedAt = None,
      Email = ''rodrigo@rugertek.com'',
      DisplayName = ''Rodrigo Campos Cervera'',
      FirstName = Some ''Rodrigo'',
      LastName = Some ''Campos Cervera'',
      AzureAdObjectId = None,
      PasswordHash = Some passwordHash,
      LastLoginAt = None\<rparr>"

definition seedMembership :: "SeedEnv \<Rightarrow> OrganizationMembership" where
  "seedMembership env =
     \<lparr>Id = SeedIds_Memberships_RodrigoRugertek,
      CreatedAt = utcNow env 4, UpdatedAt = utcNow env 5,
      CreatedBy = None, UpdatedBy = None, DeletedAt = None,
      OrganizationMembership.UserId = SeedIds_Users_Rodrigo,
      OrganizationMembership.OrganizationId = SeedIds_Organizations_Rugertek,
      Role = Owner\<rparr>"

definition seedUserRole :: "SeedEnv \<Rightarrow> UserRole" where
  "seedUserRole env =
     \<lparr>Id = SeedIds_UserRoles_RodrigoSuperAdmin,
      CreatedAt = utcNow env 9, UpdatedAt = utcNow env 10,
      CreatedBy = None, UpdatedBy = None, DeletedAt = None,
      UserRole.UserId = SeedIds_Users_Rodrigo,
      UserRole.RoleId = SeedIds_Roles_SuperAdmin,
      UserRole.OrganizationId = SeedIds_Organizations_Rugertek\<rparr>"

definition SeedOrganizationsAsync :: "SeedEnv \<Rightarrow> OrbitOSDbContext \<Rightarrow> error + OrbitOSDbContext" where
  "SeedOrganizationsAsync env db =
     (if AnyWithId SeedIds_Organizations_Rugertek (Organizations db) then Inr db
      else
        let organization = seedOrganization env
        in if primaryKeyAccepts (Organizations db) [organization]
           then Inr (db\<lparr>Organizations := Organizations db @ [organization]\<rparr>)
           else Inl DbUpdateException)"

definition SeedUsersAsync ::
  "Framework \<Rightarrow> SeedEnv \<Rightarrow> OrbitOSDbContext \<Rightarrow> error + OrbitOSDbContext" where
  "SeedUsersAsync fw env db =
     (if AnyWithId SeedIds_Users_Rodrigo (Users db) then Inr db
      else
        case HashPassword fw ''123456'' of
          Inl e \<Rightarrow> Inl e
        | Inr passwordHash \<Rightarrow>
            let user = seedUser env passwordHash
            in if primaryKeyAccepts (Users db) [user]
               then Inr (db\<lparr>Users := Users db @ [user]\<rparr>)
               else Inl DbUpdateException)"

definition SeedOrganizationMembershipsAsync ::
  "SeedEnv \<Rightarrow> OrbitOSDbContext \<Rightarrow> error + OrbitOSDbContext" where
  "SeedOrganizationMembershipsAsync env db =
     (if AnyWithId SeedIds_Memberships_RodrigoRugertek (OrganizationMemberships db) then Inr db
      else
        let membership = seedMembership env
        in if primaryKeyAccepts (OrganizationMemberships db) [membership]
           then Inr (db\<lparr>OrganizationMemberships := OrganizationMemberships db @ [membership]\<rparr>)
           else Inl DbUpdateException)"

text \<open>The object initialiser of the rows of \<open>GetSystemFunctions\<close>.\<close>

definition newFunction ::
  "Guid \<Rightarrow> string \<Rightarrow> string \<Rightarrow> string \<Rightarrow> string \<Rightarrow> Guid \<Rightarrow> DateTime \<Rightarrow> Function" where
  "newFunction functionId name description purpose category orgId now =
     \<lparr>Id = functionId, CreatedAt = now, UpdatedAt = now,
      CreatedBy = None, UpdatedBy = None, DeletedAt = None,
      Function.Name = name,
      Function.Description = Some description,
      Function.Purpose = Some purpose,
      Function.Category = Some category,
      Function.OrganizationId = orgId\<rparr>"

definition GetSystemFunctions :: "SeedEnv \<Rightarrow> Function list" where
  "GetSystemFunctions env =
     (let now = utcNow env 6;
          orgId = SeedIds_Organizations_Rugertek
      in
       [newFunction SeedIds_Functions_UsersView SystemFunctions_UserManagement_ViewUsers
         ''View user profiles and information''
         ''Read access to user data''
         SystemFunctions_UserManagement_Category orgId now,
        newFunction SeedIds_Functions_UsersCreate SystemFunctions_UserManagement_CreateUsers
         ''Create new user accounts''
         ''Add new users to the organization''
         SystemFunctions_UserManagement_Category orgId now,
        newFunction SeedIds_Functions_UsersUpdate SystemFunctions_UserManagement_UpdateUsers
         ''Update user profile information''
         ''Modify existing user data''
         SystemFunctions_UserManagement_Category orgId now,
        newFunction SeedIds_Functions_UsersDelete SystemFunctions_UserManagement_DeleteUsers
         ''Delete user accounts''
         ''Remove users from the organization''
         SystemFunctions_UserManagement_Category orgId now,
        newFunction SeedIds_Functions_UsersRolesManage SystemFunctions_UserManagement_ManageUserRoles
         ''Assign and remove roles from users''
         ''Control user permissions''
         SystemFunctions_UserManagement_Category orgId now,
        newFunction SeedIds_Functions_UsersRolesView SystemFunctions_UserManagement_ViewUserRoles
         ''View role assignments for users''
         ''See what roles users have''
         SystemFunctions_UserManagement_Category orgId now,
        newFunction SeedIds_Functions_UsersInvite SystemFunctions_UserManagement_InviteUsers
         ''Send invitations to new users''
         ''Onboard new team members''
         SystemFunctions_UserManagement_Category orgId now,
        newFunction SeedIds_Functions_UsersDeactivate SystemFunctions_UserManagement_DeactivateUsers
         ''Deactivate user accounts''
         ''Temporarily disable user access''
         SystemFunctions_UserManagement_Category orgId now,
        newFunction SeedIds_Functions_UsersReactivate SystemFunctions_UserManagement_ReactivateUsers
         ''Reactivate deactivated user accounts''
         ''Restore user access''
         SystemFunctions_UserManagement_Category orgId now,
        newFunction SeedIds_Functions_UsersActivityView SystemFunctions_UserManagement_ViewUserActivity
         ''View user activity logs''
         ''Monitor user actions''
         SystemFunctions_UserManagement_Category orgId now,
        newFunction SeedIds_Functions_OrgView SystemFunctions_OrganizationManagement_ViewOrganization
         ''View organization information''
         ''Read access to organization data''
         SystemFunctions_OrganizationManagement_Category orgId now,
        newFunction SeedIds_Functions_OrgUpdate SystemFunctions_OrganizationManagement_UpdateOrganization
         ''Update organization information''
         ''Modify organization profile''
         SystemFunctions_OrganizationManagement_Category orgId now,
        newFunction SeedIds_Functions_OrgSettingsManage SystemFunctions_OrganizationManagement_ManageSettings
         ''Manage organization settings''
         ''Configure organization preferences''
         SystemFunctions_OrganizationManagement_Category orgId now,
        newFunction SeedIds_Functions_OrgSettingsView SystemFunctions_OrganizationManagement_ViewSettings
         ''View organization settings''
         ''Read organization configuration''
         SystemFunctions_OrganizationManagement_Category orgId now,
        newFunction SeedIds_Functions_OrgBillingManage SystemFunctions_OrganizationManagement_ManageBilling
         ''Manage billing and subscriptions''
         ''Handle payments and plans''
         SystemFunctions_OrganizationManagement_Category orgId now,
        newFunction SeedIds_Functions_OrgBillingView SystemFunctions_OrganizationManagement_ViewBilling
         ''View billing information''
         ''See payment history and invoices''
         SystemFunctions_OrganizationManagement_Category orgId now,
        newFunction SeedIds_Functions_OrgIntegrationsManage SystemFunctions_OrganizationManagement_ManageIntegrations
         ''Manage third-party integrations''
         ''Configure external services''
         SystemFunctions_OrganizationManagement_Category orgId now,
        newFunction SeedIds_Functions_OrgIntegrationsView SystemFunctions_OrganizationManagement_ViewIntegrations
         ''View integration configurations''
         ''See connected services''
         SystemFunctions_OrganizationManagement_Category orgId now,
        newFunction SeedIds_Functions_OrgApiKeysManage SystemFunctions_OrganizationManagement_ManageApiKeys
         ''Create and revoke API keys''
         ''Manage programmatic access''
         SystemFunctions_OrganizationManagement_Category orgId now,
        newFunction SeedIds_Functions_OrgApiKeysView SystemFunctions_OrganizationManagement_ViewApiKeys
         ''View API keys''
         ''See existing API keys''
         SystemFunctions_OrganizationManagement_Category orgId now,
        newFunction SeedIds_Functions_OrgWebhooksManage SystemFunctions_OrganizationManagement_ManageWebhooks
         ''Configure webhook endpoints''
         ''Set up event notifications''
         SystemFunctions_OrganizationManagement_Category orgId now,
        newFunction SeedIds_Functions_OrgWebhooksView SystemFunctions_OrganizationManagement_ViewWebhooks
         ''View webhook configurations''
         ''See webhook settings''
         SystemFunctions_OrganizationManagement_Category orgId now,
        newFunction SeedIds_Functions_OrgAuditLogView SystemFunctions_OrganizationManagement_ViewAuditLog
         ''View organization audit log''
         ''Review security and compliance events''
         SystemFunctions_OrganizationManagement_Category orgId now,
        newFunction SeedIds_Functions_OrgDataExport SystemFunctions_OrganizationManagement_ExportData
         ''Export organization data''
         ''Download data for backup or migration''
         SystemFunctions_OrganizationManagement_Category orgId now,
        newFunction SeedIds_Functions_RolesView SystemFunctions_RoleManagement_ViewRoles
         ''View roles''
         ''See available roles''
         SystemFunctions_RoleManagement_Category orgId now,
        newFunction SeedIds_Functions_RolesCreate SystemFunctions_RoleManagement_CreateRoles
         ''Create new roles''
         ''Define custom permission sets''
         SystemFunctions_RoleManagement_Category orgId now,
        newFunction SeedIds_Functions_RolesUpdate SystemFunctions_RoleManagement_UpdateRoles
         ''Update existing roles''
         ''Modify role definitions''
         SystemFunctions_RoleManagement_Category orgId now,
        newFunction SeedIds_Functions_RolesDelete SystemFunctions_RoleManagement_DeleteRoles
         ''Delete roles''
         ''Remove unused roles''
         SystemFunctions_RoleManagement_Category orgId now,
        newFunction SeedIds_Functions_RolesFunctionsAssign SystemFunctions_RoleManagement_AssignFunctions
         ''Assign functions to roles''
         ''Configure role permissions''
         SystemFunctions_RoleManagement_Category orgId now,
        newFunction SeedIds_Functions_FunctionsView SystemFunctions_FunctionManagement_ViewFunctions
         ''View functions''
         ''See available permissions''
         SystemFunctions_FunctionManagement_Category orgId now,
        newFunction SeedIds_Functions_FunctionsCreate SystemFunctions_FunctionManagement_CreateFunctions
         ''Create custom functions''
         ''Define new permissions''
         SystemFunctions_FunctionManagement_Category orgId now,
        newFunction SeedIds_Functions_FunctionsUpdate SystemFunctions_FunctionManagement_UpdateFunctions
         ''Update functions''
         ''Modify permission definitions''
         SystemFunctions_FunctionManagement_Category orgId now,
        newFunction SeedIds_Functions_FunctionsDelete SystemFunctions_FunctionManagement_DeleteFunctions
         ''Delete functions''
         ''Remove unused permissions''
         SystemFunctions_FunctionManagement_Category orgId now])"

definition SeedFunctionsAsync :: "SeedEnv \<Rightarrow> OrbitOSDbContext \<Rightarrow> error + OrbitOSDbContext" where
  "SeedFunctionsAsync env db =
     (if AnyWithId SeedIds_Functions_UsersView (Functions db) then Inr db
      else
        let functions = GetSystemFunctions env
        in if primaryKeyAccepts (Functions db) functions
           then Inr (db\<lparr>Functions := Functions db @ functions\<rparr>)
           else Inl DbUpdateException)"

text \<open>The object initialiser of the four rows of \<open>SeedRolesAsync\<close>.\<close>

definition newRole ::
  "Guid \<Rightarrow> string \<Rightarrow> string \<Rightarrow> string \<Rightarrow> string \<Rightarrow> Guid \<Rightarrow> DateTime \<Rightarrow> Role" where
  "newRole roleId name description purpose department orgId now =
     \<lparr>Id = roleId, CreatedAt = now, UpdatedAt = now,
      CreatedBy = None, UpdatedBy = None, DeletedAt = None,
      Role.Name = name,
      Role.Description = Some description,
      Role.Purpose = Some purpose,
      Department = Some department,
      Role.OrganizationId = orgId\<rparr>"

definition seedRoles :: "SeedEnv \<Rightarrow> Role list" where
  "seedRoles env =
     (let now = utcNow env 7;
          orgId = SeedIds_Organizations_Rugertek
      in
       [newRole SeedIds_Roles_SuperAdmin SystemRoles_SuperAdmin
          ''Full access to all system features including user and organization management''
          ''Ultimate administrative control''
          ''Administration'' orgId now,
        newRole SeedIds_Roles_UserAdmin SystemRoles_UserAdmin
          ''Full access to user management features''
          ''Manage users and their permissions''
          ''Human Resources'' orgId now,
        newRole SeedIds_Roles_OrgAdmin SystemRoles_OrgAdmin
          ''Full access to organization management features''
          ''Configure organization settings and integrations''
          ''Operations'' orgId now,
        newRole SeedIds_Roles_Viewer SystemRoles_Viewer
          ''Read-only access to view users and organization information''
          ''Observation without modification capabilities''
          ''General'' orgId now])"

definition SeedRolesAsync :: "SeedEnv \<Rightarrow> OrbitOSDbContext \<Rightarrow> error + OrbitOSDbContext" where
  "SeedRolesAsync env db =
     (if AnyWithId SeedIds_Roles_SuperAdmin (Roles db) then Inr db
      else
        let roles = seedRoles env
        in if primaryKeyAccepts (Roles db) roles
           then Inr (db\<lparr>Roles := Roles db @ roles\<rparr>)
           else Inl DbUpdateException)"

definition GetAllFunctionIds :: "Guid list" where
  "GetAllFunctionIds =
     [SeedIds_Functions_UsersView, SeedIds_Functions_UsersCreate,
      SeedIds_Functions_UsersUpdate, SeedIds_Functions_UsersDelete,
      SeedIds_Functions_UsersRolesManage, SeedIds_Functions_UsersRolesView,
      SeedIds_Functions_UsersInvite, SeedIds_Functions_UsersDeactivate,
      SeedIds_Functions_UsersReactivate, SeedIds_Functions_UsersActivityView,
      SeedIds_Functions_OrgView, SeedIds_Functions_OrgUpdate,
      SeedIds_Functions_OrgSettingsManage, SeedIds_Functions_OrgSettingsView,
      SeedIds_Functions_OrgBillingManage, SeedIds_Functions_OrgBillingView,
      SeedIds_Functions_OrgIntegrationsManage, SeedIds_Functions_OrgIntegrationsView,
      SeedIds_Functions_OrgApiKeysManage, SeedIds_Functions_OrgApiKeysView,
      SeedIds_Functions_OrgWebhooksManage, SeedIds_Functions_OrgWebhooksView,
      SeedIds_Functions_OrgAuditLogView, SeedIds_Functions_OrgDataExport,
      SeedIds_Functions_RolesView, SeedIds_Functions_RolesCreate,
      SeedIds_Functions_RolesUpdate, SeedIds_Functions_RolesDelete,
      SeedIds_Functions_RolesFunctionsAssign, SeedIds_Functions_FunctionsView,
      SeedIds_Functions_FunctionsCreate, SeedIds_Functions_FunctionsUpdate,
      SeedIds_Functions_FunctionsDelete]"

definition userAdminFunctionIds :: "Guid list" where
  "userAdminFunctionIds =
     [SeedIds_Functions_UsersView, SeedIds_Functions_UsersCreate,
      SeedIds_Functions_UsersUpdate, SeedIds_Functions_UsersDelete,
      SeedIds_Functions_UsersRolesManage, SeedIds_Functions_UsersRolesView,
      SeedIds_Functions_UsersInvite, SeedIds_Functions_UsersDeactivate,
      SeedIds_Functions_UsersReactivate, SeedIds_Functions_UsersActivityView,
      SeedIds_Functions_RolesView, SeedIds_Functions_RolesCreate,
      SeedIds_Functions_RolesUpdate, SeedIds_Functions_RolesDelete,
      SeedIds_Functions_RolesFunctionsAssign, SeedIds_Functions_FunctionsView]"

definition orgAdminFunctionIds :: "Guid list" where
  "orgAdminFunctionIds =
     [SeedIds_Functions_OrgView, SeedIds_Functions_OrgUpdate,
      SeedIds_Functions_OrgSettingsManage, SeedIds_Functions_OrgSettingsView,
      SeedIds_Functions_OrgBillingManage, SeedIds_Functions_OrgBillingView,
      SeedIds_Functions_OrgIntegrationsManage, SeedIds_Functions_OrgIntegrationsView,
      SeedIds_Functions_OrgApiKeysManage, SeedIds_Functions_OrgApiKeysView,
      SeedIds_Functions_OrgWebhooksManage, SeedIds_Functions_OrgWebhooksView,
      SeedIds_Functions_OrgAuditLogView, SeedIds_Functions_OrgDataExport,
      SeedIds_Functions_UsersView, SeedIds_Functions_UsersRolesView,
      SeedIds_Functions_RolesView, SeedIds_Functions_FunctionsView]"

definition viewerFunctionIds :: "Guid list" where
  "viewerFunctionIds =
     [SeedIds_Functions_UsersView, SeedIds_Functions_UsersRolesView,
      SeedIds_Functions_OrgView, SeedIds_Functions_OrgSettingsView,
      SeedIds_Functions_OrgBillingView, SeedIds_Functions_OrgIntegrationsView,
      SeedIds_Functions_OrgApiKeysView, SeedIds_Functions_OrgWebhooksView,
      SeedIds_Functions_RolesView, SeedIds_Functions_FunctionsView]"

text \<open>
  One \<^verbatim>\<open>foreach\<close> loop of \<open>SeedRoleFunctionsAsync\<close>: a row per function id is added to the
  list \<open>roleFunctions\<close>. Every row added so far took one \<^verbatim>\<open>Guid.NewGuid()\<close>, so the next
  call is the one numbered by the length of the list.
\<close>

fun addRoleFunctions ::
  "SeedEnv \<Rightarrow> DateTime \<Rightarrow> Guid \<Rightarrow> Guid list \<Rightarrow> RoleFunction list \<Rightarrow> RoleFunction list" where
  "addRoleFunctions env now roleId [] roleFunctions = roleFunctions"
| "addRoleFunctions env now roleId (functionId # functionIds) roleFunctions =
     addRoleFunctions env now roleId functionIds
       (roleFunctions @
        [\<lparr>Id = newGuid env (length roleFunctions), CreatedAt = now, UpdatedAt = now,
          CreatedBy = None, UpdatedBy = None, DeletedAt = None,
          RoleFunction.RoleId = roleId, FunctionId = functionId\<rparr>])"

definition seedRoleFunctions :: "SeedEnv \<Rightarrow> RoleFunction list" where
  "seedRoleFunctions env =
     (let now = utcNow env 8;
          roleFunctions0 = [];
          roleFunctions1 =
            addRoleFunctions env now SeedIds_Roles_SuperAdmin GetAllFunctionIds roleFunctions0;
          roleFunctions2 =
            addRoleFunctions env now SeedIds_Roles_UserAdmin userAdminFunctionIds roleFunctions1;
          roleFunctions3 =
            addRoleFunctions env now SeedIds_Roles_OrgAdmin orgAdminFunctionIds roleFunctions2
      in addRoleFunctions env now SeedIds_Roles_Viewer viewerFunctionIds roleFunctions3)"

text \<open>The guard is \<^verbatim>\<open>_context.RoleFunctions.AnyAsync()\<close>: any row at all.\<close>

definition SeedRoleFunctionsAsync :: "SeedEnv \<Rightarrow> OrbitOSDbContext \<Rightarrow> error + OrbitOSDbContext" where
  "SeedRoleFunctionsAsync env db =
     (if RoleFunctions db \<noteq> [] then Inr db
      else
        let roleFunctions = seedRoleFunctions env
        in if primaryKeyAccepts (RoleFunctions db) roleFunctions
           then Inr (db\<lparr>RoleFunctions := RoleFunctions db @ roleFunctions\<rparr>)
           else Inl DbUpdateException)"

definition SeedUserRolesAsync :: "SeedEnv \<Rightarrow> OrbitOSDbContext \<Rightarrow> error + OrbitOSDbContext" where
  "SeedUserRolesAsync env db =
     (if AnyWithId SeedIds_UserRoles_RodrigoSuperAdmin (UserRoles db) then Inr db
      else
        let userRole = seedUserRole env
        in AddUserRole db userRole)"

text \<open>
  Sequencing of awaited calls: the first exception ends the run. Each step saves its
  own rows, so the rows of the steps before the failing one stay in the database; the
  error value does not carry them.
\<close>

definition andThen ::
  "error + OrbitOSDbContext \<Rightarrow> (OrbitOSDbContext \<Rightarrow> error + OrbitOSDbContext) \<Rightarrow>
   error + OrbitOSDbContext" where
  "andThen r f = (case r of Inl e \<Rightarrow> Inl e | Inr db \<Rightarrow> f db)"

definition SeedAsync :: "Framework \<Rightarrow> SeedEnv \<Rightarrow> OrbitOSDbContext \<Rightarrow> error + OrbitOSDbContext" where
  "SeedAsync fw env db =
     andThen (andThen (andThen (andThen (andThen (andThen
       (SeedOrganizationsAsync env db)
       (SeedUsersAsync fw env))
       (SeedOrganizationMembershipsAsync env))
       (SeedFunctionsAsync env))
       (SeedRolesAsync env))
       (SeedRoleFunctionsAsync env))
       (SeedUserRolesAsync env)"

subsection \<open>Role store and authorization resolver\<close>

text \<open>
  The repository has no code for the queries and operations of this subsection; they
  are written from sections 4.2 to 4.4 of the specification, over the tables above. A
  permission is identified by the \<open>Name\<close> of its \<open>Function\<close> row.
\<close>

text \<open>
  Modelled from the spec: the membership test of the resolver, absent from the sources.
  A membership is a row of \<open>OrganizationMemberships\<close> for the pair (user, organization).
\<close>

definition isMember :: "OrbitOSDbContext \<Rightarrow> Guid \<Rightarrow> Guid \<Rightarrow> bool" where
  "isMember db userId orgId =
     (\<exists>m \<in> set (OrganizationMemberships db).
        OrganizationMembership.UserId m = userId \<and>
        OrganizationMembership.OrganizationId m = orgId)"

text \<open>
  Modelled from the spec: \<open>permissionsOf(roleId)\<close>, absent from the sources. A
  \<open>RoleFunction\<close> row is the junction "role grants permission"; the permission is the
  catalog entry the row points to, so an identifier outside the catalog is never granted.
\<close>

definition permissionsOf :: "OrbitOSDbContext \<Rightarrow> Guid \<Rightarrow> string set" where
  "permissionsOf db roleId =
     set (map Function.Name
       (filter (\<lambda>f. Id f \<in> set (map FunctionId
                  (filter (\<lambda>rf. RoleFunction.RoleId rf = roleId) (RoleFunctions db))))
          (Functions db)))"

text \<open>
  Modelled from the spec: \<open>rolesOf(userId, orgId)\<close>, absent from the sources: the
  roles that are not soft-deleted and are assigned to the user within the organization
  by a row of \<open>UserRoles\<close>.
\<close>

definition rolesOf :: "OrbitOSDbContext \<Rightarrow> Guid \<Rightarrow> Guid \<Rightarrow> Role list" where
  "rolesOf db userId orgId =
     filter (\<lambda>r. DeletedAt r = None \<and>
                (\<exists>ur \<in> set (UserRoles db).
                   UserRole.UserId ur = userId \<and> UserRole.RoleId ur = Id r \<and>
                   UserRole.OrganizationId ur = orgId))
       (Roles db)"

text \<open>
  Modelled from the spec: \<open>effectivePermissions(userId, orgId)\<close>, absent from the
  sources: the union, over every non-deleted role assigned to the user within the
  organization, of the permissions the role grants; empty when the user has no
  membership.
\<close>

definition effectivePermissions :: "OrbitOSDbContext \<Rightarrow> Guid \<Rightarrow> Guid \<Rightarrow> string set" where
  "effectivePermissions db userId orgId =
     (if isMember db userId orgId
      then \<Union> (set (map (\<lambda>r. permissionsOf db (Id r)) (rolesOf db userId orgId)))
      else {})"

text \<open>
  Modelled from the spec: \<open>authorize(userId, orgId, permissionId)\<close>, absent from the
  sources: it answers \<open>False\<close> at once for a user without membership, and otherwise
  whether the permission is among the effective permissions.
\<close>

definition authorize :: "OrbitOSDbContext \<Rightarrow> Guid \<Rightarrow> Guid \<Rightarrow> string \<Rightarrow> bool" where
  "authorize db userId orgId permissionId =
     (if \<not> isMember db userId orgId then False
      else permissionId \<in> effectivePermissions db userId orgId)"

text \<open>
  Modelled from the spec: \<open>deleteRole(roleId)\<close>, absent from the sources: a soft
  delete, which writes the deletion time into the role's row and nothing else.
\<close>

definition deleteRole :: "OrbitOSDbContext \<Rightarrow> Guid \<Rightarrow> DateTime \<Rightarrow> OrbitOSDbContext" where
  "deleteRole db roleId now =
     db\<lparr>Roles := map (\<lambda>r. if Id r = roleId then r\<lparr>DeletedAt := Some now\<rparr> else r) (Roles db)\<rparr>"

text \<open>\<^verbatim>\<open>s.EndsWith(suffix)\<close> on strings, for the pattern \<^verbatim>\<open>*.view\<close> of permission names.\<close>

definition EndsWith :: "string \<Rightarrow> string \<Rightarrow> bool" where
  "EndsWith s suffix =
     (length suffix \<le> length s \<and> drop (length s - length suffix) s = suffix)"

text \<open>The guards of the seven seeding steps, all at once.\<close>

definition seedGuards :: "OrbitOSDbContext \<Rightarrow> bool" where
  "seedGuards db =
     (AnyWithId SeedIds_Organizations_Rugertek (Organizations db) \<and>
      AnyWithId SeedIds_Users_Rodrigo (Users db) \<and>
      AnyWithId SeedIds_Memberships_RodrigoRugertek (OrganizationMemberships db) \<and>
      AnyWithId SeedIds_Functions_UsersView (Functions db) \<and>
      AnyWithId SeedIds_Roles_SuperAdmin (Roles db) \<and>
      RoleFunctions db \<noteq> [] \<and>
      AnyWithId SeedIds_UserRoles_RodrigoSuperAdmin (UserRoles db))"

subsection \<open>Values for evaluation\<close>

text \<open>A framework for evaluation: one character per byte as the text encoding.\<close>

definition demoFramework :: Framework where
  "demoFramework =
     \<lparr>randomByte = (\<lambda>i. of_nat (7 * i + 3)),
      pbkdf2Byte = (\<lambda>password salt iters i. of_nat (length password + i) + sum_list salt),
      ToBase64String = map (\<lambda>b. char_of (unat b)),
      FromBase64String = (\<lambda>s. Some (map (\<lambda>c. of_nat (of_char c)) s))\<rparr>"

text \<open>Surroundings of a run: second \<open>k\<close> on the clock, \<open>k + 1\<close> as the fresh identifier.\<close>

definition demoEnv :: SeedEnv where
  "demoEnv = \<lparr>utcNow = (\<lambda>k. 1000 + int k), newGuid = (\<lambda>k. of_nat (k + 1))\<rparr>"

text \<open>A permission registered after seeding, and the row that grants it.\<close>

definition demoFunction :: Function where
  "demoFunction =
     newFunction 0x44444444444444444444444444444801 ''reports.view''
       ''View reports'' ''Read access to reports'' ''Reporting''
       SeedIds_Organizations_Rugertek 5000"

definition demoRoleFunction :: RoleFunction where
  "demoRoleFunction =
     \<lparr>Id = 0x77777777777777777777777777777701, CreatedAt = 5001, UpdatedAt = 5001,
      CreatedBy = None, UpdatedBy = None, DeletedAt = None,
      RoleFunction.RoleId = SeedIds_Roles_SuperAdmin,
      FunctionId = 0x44444444444444444444444444444801\<rparr>"

text \<open>
  A small database in the shape of the scenario of the specification: organizations
  X (1) and Y (2); users Alice (3), a member of both, and Bob (4), a member of neither;
  the permissions \<^verbatim>\<open>users.view\<close> (7), \<^verbatim>\<open>users.create\<close> (8) and \<^verbatim>\<open>users.delete\<close> (22); in
  X the roles Viewer (9), granting the first, Editor (10), granting the first two, and
  Retired (11), granting the third and soft-deleted. Alice is assigned all three roles
  in X, Bob is assigned Editor in X.
\<close>

definition demoOrganization :: "Guid \<Rightarrow> string \<Rightarrow> string \<Rightarrow> Organization" where
  "demoOrganization orgId name slug =
     \<lparr>Id = orgId, CreatedAt = 10, UpdatedAt = 10,
      CreatedBy = None, UpdatedBy = None, DeletedAt = None,
      Organization.Name = name, Slug = slug, Organization.Description = None,
      LogoUrl = None, AzureAdTenantId = None\<rparr>"

definition demoUser :: "Guid \<Rightarrow> string \<Rightarrow> string \<Rightarrow> User" where
  "demoUser userId email name =
     \<lparr>Id = userId, CreatedAt = 11, UpdatedAt = 11,
      CreatedBy = None, UpdatedBy = None, DeletedAt = None,
      Email = email, DisplayName = name, FirstName = None, LastName = None,
      AzureAdObjectId = None, PasswordHash = None, LastLoginAt = None\<rparr>"

definition demoMembership :: "Guid \<Rightarrow> Guid \<Rightarrow> Guid \<Rightarrow> OrganizationMembership" where
  "demoMembership membershipId userId orgId =
     \<lparr>Id = membershipId, CreatedAt = 12, UpdatedAt = 12,
      CreatedBy = None, UpdatedBy = None, DeletedAt = None,
      OrganizationMembership.UserId = userId,
      OrganizationMembership.OrganizationId = orgId,
      Role = Member\<rparr>"

definition demoGrant :: "Guid \<Rightarrow> Guid \<Rightarrow> Guid \<Rightarrow> RoleFunction" where
  "demoGrant grantId roleId functionId =
     \<lparr>Id = grantId, CreatedAt = 13, UpdatedAt = 13,
      CreatedBy = None, UpdatedBy = None, DeletedAt = None,
      RoleFunction.RoleId = roleId, FunctionId = functionId\<rparr>"

definition demoUserRole :: "Guid \<Rightarrow> Guid \<Rightarrow> Guid \<Rightarrow> Guid \<Rightarrow> UserRole" where
  "demoUserRole assignmentId userId roleId orgId =
     \<lparr>Id = assignmentId, CreatedAt = 14, UpdatedAt = 14,
      CreatedBy = None, UpdatedBy = None, DeletedAt = None,
      UserRole.UserId = userId, UserRole.RoleId = roleId,
      UserRole.OrganizationId = orgId\<rparr>"

definition demoDb :: OrbitOSDbContext where
  "demoDb =
     \<lparr>Organizations = [demoOrganization 1 ''X'' ''x'', demoOrganization 2 ''Y'' ''y''],
      Users = [demoUser 3 ''alice@x.example'' ''Alice'', demoUser 4 ''bob@x.example'' ''Bob''],
      OrganizationMemberships = [demoMembership 5 3 1, demoMembership 6 3 2],
      Functions =
        [newFunction 7 ''users.view'' ''View users'' ''Read'' ''User Management'' 1 15,
         newFunction 8 ''users.create'' ''Create users'' ''Write'' ''User Management'' 1 15,
         newFunction 22 ''users.delete'' ''Delete users'' ''Write'' ''User Management'' 1 15],
      Roles =
        [newRole 9 ''Viewer'' ''Read-only'' ''Observation'' ''General'' 1 16,
         newRole 10 ''Editor'' ''Read and write'' ''Maintenance'' ''General'' 1 16,
         (newRole 11 ''Retired'' ''No longer used'' ''None'' ''General'' 1 16)
           \<lparr>DeletedAt := Some 50\<rparr>],
      RoleFunctions =
        [demoGrant 12 9 7, demoGrant 13 10 7, demoGrant 14 10 8, demoGrant 15 11 22],
      UserRoles =
        [demoUserRole 16 3 9 1, demoUserRole 17 3 10 1, demoUserRole 18 3 11 1,
         demoUserRole 19 4 10 1]\<rparr>"


section \<open>Properties\<close>

subsection \<open>Password round trip\<close>

lemma HashPassword_value:
  "HashPassword fw password =
     Inr (ToBase64String fw
       (RandomNumberGenerator_GetBytes fw SaltSize @
        Rfc2898DeriveBytes_GetBytes fw password (RandomNumberGenerator_GetBytes fw SaltSize)
          Iterations HashSize))"
  by (simp add: HashPassword_def Array_Copy_def RandomNumberGenerator_GetBytes_def
      Rfc2898DeriveBytes_GetBytes_def Let_def)

lemma demoFramework_roundtrip:
  "FromBase64String demoFramework (ToBase64String demoFramework bs) = Some bs"
proof -
  have "(of_nat (of_char (char_of (unat b) :: char)) :: byte) = b" for b :: byte
  proof -
    have "unat b < 256" using unsigned_less [of b] by simp
    then show ?thesis by simp
  qed
  then show ?thesis
    by (simp add: demoFramework_def comp_def)
qed

text \<open>
  Claim C9. Whatever salt the random number generator delivers, the value returned by
  \<open>HashPassword\<close> for a password verifies against that password: \<open>VerifyPassword\<close> reads the
  salt back from the first 16 bytes and derives the same 32 bytes. The only thing asked
  of the framework is that decoding an encoded byte array gives the array back.
\<close>

theorem VerifyPassword_HashPassword:
  assumes "\<forall>bs. FromBase64String fw (ToBase64String fw bs) = Some bs"
  shows "\<exists>h. HashPassword fw password = Inr h \<and> VerifyPassword fw password h = Inr True"
proof -
  let ?salt = "RandomNumberGenerator_GetBytes fw SaltSize"
  let ?hash = "Rfc2898DeriveBytes_GetBytes fw password ?salt Iterations HashSize"
  have len: "length ?salt = SaltSize"
    by (simp add: RandomNumberGenerator_GetBytes_def)
  have "VerifyPassword fw password (ToBase64String fw (?salt @ ?hash)) = Inr True"
    using assms len by (simp add: VerifyPassword_def FixedTimeEquals_def Let_def)
  then show ?thesis
    by (simp add: HashPassword_value)
qed

theorem VerifyPassword_HashPassword_witness:
  "(\<forall>bs. FromBase64String demoFramework (ToBase64String demoFramework bs) = Some bs) \<and>
   (\<exists>h. HashPassword demoFramework ''123456'' = Inr h \<and>
        VerifyPassword demoFramework ''123456'' h = Inr True)"
  using VerifyPassword_HashPassword [of demoFramework "''123456''"] demoFramework_roundtrip
  by simp

subsection \<open>Seeding an empty database\<close>

lemmas SeedIds_Functions_defs =
  SeedIds_Functions_UsersView_def SeedIds_Functions_UsersCreate_def
  SeedIds_Functions_UsersUpdate_def SeedIds_Functions_UsersDelete_def
  SeedIds_Functions_UsersRolesManage_def SeedIds_Functions_UsersRolesView_def
  SeedIds_Functions_UsersInvite_def SeedIds_Functions_UsersDeactivate_def
  SeedIds_Functions_UsersReactivate_def SeedIds_Functions_UsersActivityView_def
  SeedIds_Functions_OrgView_def SeedIds_Functions_OrgUpdate_def
  SeedIds_Functions_OrgSettingsManage_def SeedIds_Functions_OrgSettingsView_def
  SeedIds_Functions_OrgBillingManage_def SeedIds_Functions_OrgBillingView_def
  SeedIds_Functions_OrgIntegrationsManage_def SeedIds_Functions_OrgIntegrationsView_def
  SeedIds_Functions_OrgApiKeysManage_def SeedIds_Functions_OrgApiKeysView_def
  SeedIds_Functions_OrgWebhooksManage_def SeedIds_Functions_OrgWebhooksView_def
  SeedIds_Functions_OrgAuditLogView_def SeedIds_Functions_OrgDataExport_def
  SeedIds_Functions_RolesView_def SeedIds_Functions_RolesCreate_def
  SeedIds_Functions_RolesUpdate_def SeedIds_Functions_RolesDelete_def
  SeedIds_Functions_RolesFunctionsAssign_def
  SeedIds_Functions_FunctionsView_def SeedIds_Functions_FunctionsCreate_def
  SeedIds_Functions_FunctionsUpdate_def SeedIds_Functions_FunctionsDelete_def

lemmas SeedIds_Roles_defs =
  SeedIds_Roles_SuperAdmin_def SeedIds_Roles_UserAdmin_def
  SeedIds_Roles_OrgAdmin_def SeedIds_Roles_Viewer_def

lemma AnyWithId_Nil: "AnyWithId g [] = False"
  by (simp add: AnyWithId_def)

lemma primaryKeyAccepts_Nil: "primaryKeyAccepts [] rows = distinct (map Id rows)"
  by (simp add: primaryKeyAccepts_def)

lemma GetSystemFunctions_Ids: "map Id (GetSystemFunctions env) = GetAllFunctionIds"
  by (simp add: GetSystemFunctions_def GetAllFunctionIds_def newFunction_def Let_def)

lemma distinct_GetAllFunctionIds: "distinct GetAllFunctionIds"
  by (simp add: GetAllFunctionIds_def SeedIds_Functions_defs)

lemma seedRoles_Ids:
  "map Id (seedRoles env) =
     [SeedIds_Roles_SuperAdmin, SeedIds_Roles_UserAdmin, SeedIds_Roles_OrgAdmin, SeedIds_Roles_Viewer]"
  by (simp add: seedRoles_def newRole_def Let_def)

lemma distinct_seedRoles_Ids: "distinct (map Id (seedRoles env))"
  by (simp add: seedRoles_Ids SeedIds_Roles_defs)

lemma addRoleFunctions_Ids:
  "map Id (addRoleFunctions env now roleId functionIds acc) =
     map Id acc @ map (newGuid env) [length acc ..< length acc + length functionIds]"
proof (induction functionIds arbitrary: acc)
  case Nil
  then show ?case by simp
next
  case (Cons functionId functionIds)
  have "[length acc ..< length acc + length (functionId # functionIds)] =
        length acc # [Suc (length acc) ..< length acc + length (functionId # functionIds)]"
    by (rule upt_conv_Cons) simp
  then show ?case
    by (simp add: Cons.IH)
qed

lemma addRoleFunctions_grants:
  "map (\<lambda>rf. (RoleFunction.RoleId rf, FunctionId rf))
       (addRoleFunctions env now roleId functionIds acc) =
     map (\<lambda>rf. (RoleFunction.RoleId rf, FunctionId rf)) acc @ map (Pair roleId) functionIds"
  by (induction functionIds arbitrary: acc) simp_all

lemma length_addRoleFunctions:
  "length (addRoleFunctions env now roleId functionIds acc) = length acc + length functionIds"
  by (induction functionIds arbitrary: acc) simp_all

lemma seedRoleFunctions_Ids: "map Id (seedRoleFunctions env) = map (newGuid env) [0..<77]"
proof -
  have l: "length GetAllFunctionIds = 33" "length userAdminFunctionIds = 16"
    "length orgAdminFunctionIds = 18" "length viewerFunctionIds = 10"
    by (simp_all add: GetAllFunctionIds_def userAdminFunctionIds_def orgAdminFunctionIds_def
        viewerFunctionIds_def)
  have "[0..<77] = [0..<33] @ [33..<49] @ [49..<67] @ [67..<77::nat]"
    using upt_add_eq_append [of 0 33 16] upt_add_eq_append [of 0 49 18]
      upt_add_eq_append [of 0 67 10] by simp
  then show ?thesis
    by (simp add: seedRoleFunctions_def Let_def addRoleFunctions_Ids length_addRoleFunctions l)
qed

lemma seedRoleFunctions_grants:
  "map (\<lambda>rf. (RoleFunction.RoleId rf, FunctionId rf)) (seedRoleFunctions env) =
     map (Pair SeedIds_Roles_SuperAdmin) GetAllFunctionIds @
     map (Pair SeedIds_Roles_UserAdmin) userAdminFunctionIds @
     map (Pair SeedIds_Roles_OrgAdmin) orgAdminFunctionIds @
     map (Pair SeedIds_Roles_Viewer) viewerFunctionIds"
  by (simp add: seedRoleFunctions_def Let_def addRoleFunctions_grants)

lemma length_seedRoleFunctions: "length (seedRoleFunctions env) = 77"
  using arg_cong [OF seedRoleFunctions_Ids [of env], of length] by simp

lemma seedRoleFunctions_nonempty: "seedRoleFunctions env \<noteq> []"
  using length_seedRoleFunctions [of env] by auto

lemma SeedOrganizationsAsync_fresh:
  "Organizations db = [] \<Longrightarrow>
   SeedOrganizationsAsync env db = Inr (db\<lparr>Organizations := [seedOrganization env]\<rparr>)"
  by (simp add: SeedOrganizationsAsync_def AnyWithId_Nil primaryKeyAccepts_Nil Let_def)

lemma SeedUsersAsync_fresh:
  "Users db = [] \<Longrightarrow> HashPassword fw ''123456'' = Inr h \<Longrightarrow>
   SeedUsersAsync fw env db = Inr (db\<lparr>Users := [seedUser env h]\<rparr>)"
  by (simp add: SeedUsersAsync_def AnyWithId_Nil primaryKeyAccepts_Nil Let_def)

lemma SeedOrganizationMembershipsAsync_fresh:
  "OrganizationMemberships db = [] \<Longrightarrow>
   SeedOrganizationMembershipsAsync env db =
     Inr (db\<lparr>OrganizationMemberships := [seedMembership env]\<rparr>)"
  by (simp add: SeedOrganizationMembershipsAsync_def AnyWithId_Nil primaryKeyAccepts_Nil Let_def)

lemma SeedFunctionsAsync_fresh:
  "Functions db = [] \<Longrightarrow>
   SeedFunctionsAsync env db = Inr (db\<lparr>Functions := GetSystemFunctions env\<rparr>)"
  by (simp add: SeedFunctionsAsync_def AnyWithId_Nil primaryKeyAccepts_Nil Let_def
      GetSystemFunctions_Ids distinct_GetAllFunctionIds)

lemma SeedRolesAsync_fresh:
  "Roles db = [] \<Longrightarrow> SeedRolesAsync env db = Inr (db\<lparr>Roles := seedRoles env\<rparr>)"
  by (simp add: SeedRolesAsync_def AnyWithId_Nil primaryKeyAccepts_Nil Let_def
      distinct_seedRoles_Ids)

lemma SeedRoleFunctionsAsync_fresh:
  "RoleFunctions db = [] \<Longrightarrow> distinct (map (newGuid env) [0..<77]) \<Longrightarrow>
   SeedRoleFunctionsAsync env db = Inr (db\<lparr>RoleFunctions := seedRoleFunctions env\<rparr>)"
  by (simp add: SeedRoleFunctionsAsync_def primaryKeyAccepts_Nil Let_def
      seedRoleFunctions_Ids)

lemma SeedUserRolesAsync_fresh:
  "UserRoles db = [] \<Longrightarrow> Organizations db = [seedOrganization ea] \<Longrightarrow>
   Roles db = seedRoles eb \<Longrightarrow> Users db = [seedUser ec h] \<Longrightarrow>
   SeedUserRolesAsync env db = Inr (db\<lparr>UserRoles := [seedUserRole env]\<rparr>)"
  by (simp add: SeedUserRolesAsync_def AddUserRole_def userRoleAccepts_def AnyWithId_Nil
      primaryKeyAccepts_Nil Let_def AnyWithId_def seedRoles_Ids seedUserRole_def
      seedOrganization_def seedUser_def)

lemma SeedAsync_emptyDb:
  assumes "distinct (map (newGuid env) [0..<77])"
  shows "\<exists>h. HashPassword fw ''123456'' = Inr h \<and>
     SeedAsync fw env emptyDb =
       Inr \<lparr>Organizations = [seedOrganization env],
            Users = [seedUser env h],
            OrganizationMemberships = [seedMembership env],
            Functions = GetSystemFunctions env,
            Roles = seedRoles env,
            RoleFunctions = seedRoleFunctions env,
            UserRoles = [seedUserRole env]\<rparr>"
proof -
  obtain h where h: "HashPassword fw ''123456'' = Inr h"
    using HashPassword_value by blast
  show ?thesis
    using h assms
    by (simp add: SeedAsync_def andThen_def emptyDb_def SeedOrganizationsAsync_fresh
        SeedUsersAsync_fresh SeedOrganizationMembershipsAsync_fresh SeedFunctionsAsync_fresh
        SeedRolesAsync_fresh SeedRoleFunctionsAsync_fresh
        SeedUserRolesAsync_fresh [where ea = env and eb = env and ec = env and h = h])
qed

subsection \<open>Running the seeder again\<close>

lemma AnyWithId_append: "AnyWithId g (xs @ ys) = (AnyWithId g xs \<or> AnyWithId g ys)"
  by (auto simp: AnyWithId_def)

lemma AnyWithId_seedOrganization: "AnyWithId SeedIds_Organizations_Rugertek [seedOrganization env]"
  by (simp add: AnyWithId_def seedOrganization_def)

lemma AnyWithId_seedUser: "AnyWithId SeedIds_Users_Rodrigo [seedUser env h]"
  by (simp add: AnyWithId_def seedUser_def)

lemma AnyWithId_seedMembership:
  "AnyWithId SeedIds_Memberships_RodrigoRugertek [seedMembership env]"
  by (simp add: AnyWithId_def seedMembership_def)

lemma AnyWithId_GetSystemFunctions:
  "AnyWithId SeedIds_Functions_UsersView (GetSystemFunctions env)"
  by (simp add: AnyWithId_def GetSystemFunctions_Ids GetAllFunctionIds_def)

lemma AnyWithId_seedRoles: "AnyWithId SeedIds_Roles_SuperAdmin (seedRoles env)"
  by (simp add: AnyWithId_def seedRoles_Ids)

lemma AnyWithId_seedUserRole:
  "AnyWithId SeedIds_UserRoles_RodrigoSuperAdmin [seedUserRole env]"
  by (simp add: AnyWithId_def seedUserRole_def)

text \<open>Each step: the tables it leaves alone, and its guard afterwards.\<close>

lemma SeedOrganizationsAsync_Inr:
  assumes "SeedOrganizationsAsync env db = Inr db'"
  shows "AnyWithId SeedIds_Organizations_Rugertek (Organizations db')"
    and "\<exists>added. db' = db\<lparr>Organizations := Organizations db @ added\<rparr>"
  using assms
  by (auto simp: SeedOrganizationsAsync_def Let_def AnyWithId_append AnyWithId_seedOrganization
      split: if_splits intro: exI [of _ "[]"])

lemma SeedUsersAsync_Inr:
  assumes "SeedUsersAsync fw env db = Inr db'"
  shows "AnyWithId SeedIds_Users_Rodrigo (Users db')"
    and "\<exists>added. db' = db\<lparr>Users := Users db @ added\<rparr>"
  using assms
  by (auto simp: SeedUsersAsync_def Let_def AnyWithId_append AnyWithId_seedUser
      split: if_splits sum.splits intro: exI [of _ "[]"])

lemma SeedOrganizationMembershipsAsync_Inr:
  assumes "SeedOrganizationMembershipsAsync env db = Inr db'"
  shows "AnyWithId SeedIds_Memberships_RodrigoRugertek (OrganizationMemberships db')"
    and "\<exists>added. db' = db\<lparr>OrganizationMemberships := OrganizationMemberships db @ added\<rparr>"
  using assms
  by (auto simp: SeedOrganizationMembershipsAsync_def Let_def AnyWithId_append
      AnyWithId_seedMembership split: if_splits intro: exI [of _ "[]"])

lemma SeedFunctionsAsync_Inr:
  assumes "SeedFunctionsAsync env db = Inr db'"
  shows "AnyWithId SeedIds_Functions_UsersView (Functions db')"
    and "\<exists>added. db' = db\<lparr>Functions := Functions db @ added\<rparr>"
  using assms
  by (auto simp: SeedFunctionsAsync_def Let_def AnyWithId_append AnyWithId_GetSystemFunctions
      split: if_splits intro: exI [of _ "[]"])

lemma SeedRolesAsync_Inr:
  assumes "SeedRolesAsync env db = Inr db'"
  shows "AnyWithId SeedIds_Roles_SuperAdmin (Roles db')"
    and "\<exists>added. db' = db\<lparr>Roles := Roles db @ added\<rparr>"
  using assms
  by (auto simp: SeedRolesAsync_def Let_def AnyWithId_append AnyWithId_seedRoles
      split: if_splits intro: exI [of _ "[]"])

lemma SeedRoleFunctionsAsync_Inr:
  assumes "SeedRoleFunctionsAsync env db = Inr db'"
  shows "RoleFunctions db' \<noteq> []"
    and "\<exists>added. db' = db\<lparr>RoleFunctions := RoleFunctions db @ added\<rparr>"
  using assms
  by (auto simp: SeedRoleFunctionsAsync_def Let_def seedRoleFunctions_nonempty
      split: if_splits intro: exI [of _ "[]"])

lemma SeedUserRolesAsync_Inr:
  assumes "SeedUserRolesAsync env db = Inr db'"
  shows "AnyWithId SeedIds_UserRoles_RodrigoSuperAdmin (UserRoles db')"
    and "\<exists>added. db' = db\<lparr>UserRoles := UserRoles db @ added\<rparr>"
  using assms
  by (auto simp: SeedUserRolesAsync_def AddUserRole_def Let_def AnyWithId_append
      AnyWithId_seedUserRole split: if_splits intro: exI [of _ "[]"])

lemma SeedAsync_guards:
  assumes "seedGuards db"
  shows "SeedAsync fw env db = Inr db"
  using assms
  by (simp add: seedGuards_def SeedAsync_def andThen_def SeedOrganizationsAsync_def
      SeedUsersAsync_def SeedOrganizationMembershipsAsync_def SeedFunctionsAsync_def
      SeedRolesAsync_def SeedRoleFunctionsAsync_def SeedUserRolesAsync_def)

lemma SeedAsync_Inr_guards:
  assumes "SeedAsync fw env db = Inr db'"
  shows "seedGuards db'"
proof -
  from assms obtain d1 d2 d3 d4 d5 d6 where
    s1: "SeedOrganizationsAsync env db = Inr d1" and
    s2: "SeedUsersAsync fw env d1 = Inr d2" and
    s3: "SeedOrganizationMembershipsAsync env d2 = Inr d3" and
    s4: "SeedFunctionsAsync env d3 = Inr d4" and
    s5: "SeedRolesAsync env d4 = Inr d5" and
    s6: "SeedRoleFunctionsAsync env d5 = Inr d6" and
    s7: "SeedUserRolesAsync env d6 = Inr db'"
    by (auto simp: SeedAsync_def andThen_def split: sum.splits)
  note g = SeedOrganizationsAsync_Inr(1) [OF s1] SeedUsersAsync_Inr(1) [OF s2]
    SeedOrganizationMembershipsAsync_Inr(1) [OF s3] SeedFunctionsAsync_Inr(1) [OF s4]
    SeedRolesAsync_Inr(1) [OF s5] SeedRoleFunctionsAsync_Inr(1) [OF s6]
    SeedUserRolesAsync_Inr(1) [OF s7]
  note f = SeedUsersAsync_Inr(2) [OF s2]
    SeedOrganizationMembershipsAsync_Inr(2) [OF s3] SeedFunctionsAsync_Inr(2) [OF s4]
    SeedRolesAsync_Inr(2) [OF s5] SeedRoleFunctionsAsync_Inr(2) [OF s6]
    SeedUserRolesAsync_Inr(2) [OF s7]
  show ?thesis
    using g f by (auto simp: seedGuards_def)
qed

lemma demoEnv_distinct: "distinct (map (newGuid demoEnv) [0..<77])"
proof -
  have "inj_on (\<lambda>k. of_nat (k + 1) :: Guid) {0..<77}"
  proof (rule inj_onI)
    fix x y :: nat
    assume x: "x \<in> {0..<77}" and y: "y \<in> {0..<77}"
      and eq: "(of_nat (x + 1) :: Guid) = of_nat (y + 1)"
    have lt: "x + 1 < 2 ^ 128" "y + 1 < 2 ^ 128"
      using x y by simp_all
    have "take_bit LENGTH(128) (x + 1) = take_bit LENGTH(128) (y + 1)"
      using eq by (rule iffD1 [OF word_of_nat_eq_iff])
    then have "take_bit 128 (x + 1) = take_bit 128 (y + 1)"
      by simp
    then have "x + 1 = y + 1"
      using lt by (simp only: take_bit_nat_eq_self)
    then show "x = y"
      by simp
  qed
  then show ?thesis
    by (simp add: distinct_map demoEnv_def)
qed

text \<open>
  Claim C5. A run of \<open>SeedAsync\<close> that has completed leaves a database on which any later
  run, whatever the clock and the fresh identifiers, completes as well and returns the
  database as it found it: every step finds its guard row and inserts nothing.
\<close>

theorem SeedAsync_idempotent:
  assumes "SeedAsync fw env db = Inr db'"
  shows "SeedAsync fw env' db' = Inr db'"
  using SeedAsync_guards [OF SeedAsync_Inr_guards [OF assms]] .

theorem SeedAsync_idempotent_witness:
  "\<exists>db. SeedAsync demoFramework demoEnv emptyDb = Inr db \<and>
        SeedAsync demoFramework (demoEnv\<lparr>utcNow := (\<lambda>k. 2000 + int k)\<rparr>) db = Inr db"
proof -
  obtain db where db: "SeedAsync demoFramework demoEnv emptyDb = Inr db"
    using SeedAsync_emptyDb [OF demoEnv_distinct, of demoFramework] by blast
  show ?thesis
    using db SeedAsync_idempotent [OF db] by blast
qed

subsection \<open>What the seeded roles grant\<close>

lemmas SystemFunctions_defs =
  SystemFunctions_UserManagement_ViewUsers_def SystemFunctions_UserManagement_CreateUsers_def
  SystemFunctions_UserManagement_UpdateUsers_def SystemFunctions_UserManagement_DeleteUsers_def
  SystemFunctions_UserManagement_ManageUserRoles_def
  SystemFunctions_UserManagement_ViewUserRoles_def
  SystemFunctions_UserManagement_InviteUsers_def
  SystemFunctions_UserManagement_DeactivateUsers_def
  SystemFunctions_UserManagement_ReactivateUsers_def
  SystemFunctions_UserManagement_ViewUserActivity_def
  SystemFunctions_OrganizationManagement_ViewOrganization_def
  SystemFunctions_OrganizationManagement_UpdateOrganization_def
  SystemFunctions_OrganizationManagement_ManageSettings_def
  SystemFunctions_OrganizationManagement_ViewSettings_def
  SystemFunctions_OrganizationManagement_ManageBilling_def
  SystemFunctions_OrganizationManagement_ViewBilling_def
  SystemFunctions_OrganizationManagement_ManageIntegrations_def
  SystemFunctions_OrganizationManagement_ViewIntegrations_def
  SystemFunctions_OrganizationManagement_ManageApiKeys_def
  SystemFunctions_OrganizationManagement_ViewApiKeys_def
  SystemFunctions_OrganizationManagement_ManageWebhooks_def
  SystemFunctions_OrganizationManagement_ViewWebhooks_def
  SystemFunctions_OrganizationManagement_ViewAuditLog_def
  SystemFunctions_OrganizationManagement_ExportData_def
  SystemFunctions_RoleManagement_ViewRoles_def SystemFunctions_RoleManagement_CreateRoles_def
  SystemFunctions_RoleManagement_UpdateRoles_def SystemFunctions_RoleManagement_DeleteRoles_def
  SystemFunctions_RoleManagement_AssignFunctions_def
  SystemFunctions_FunctionManagement_ViewFunctions_def
  SystemFunctions_FunctionManagement_CreateFunctions_def
  SystemFunctions_FunctionManagement_UpdateFunctions_def
  SystemFunctions_FunctionManagement_DeleteFunctions_def

lemma granted_iff:
  "(\<exists>rf \<in> set rows. RoleFunction.RoleId rf = roleId \<and> FunctionId rf = g) \<longleftrightarrow>
   (roleId, g) \<in> set (map (\<lambda>rf. (RoleFunction.RoleId rf, FunctionId rf)) rows)"
  by force

lemma grantedPairs_iff:
  "(roleId, g) \<in> set (grantedPairs db) \<longleftrightarrow>
   (\<exists>rf \<in> set (RoleFunctions db). RoleFunction.RoleId rf = roleId \<and> FunctionId rf = g)"
proof -
  have "zip (map RoleFunction.RoleId rows) (map FunctionId rows) =
        map (\<lambda>rf. (RoleFunction.RoleId rf, FunctionId rf)) rows"
    for rows :: "RoleFunction list"
    by (induction rows) simp_all
  then show ?thesis
    unfolding grantedPairs_def granted_iff by simp
qed

lemma permissionsOf_grants:
  "permissionsOf db roleId =
     Function.Name ` {f \<in> set (Functions db).
        \<exists>rf \<in> set (RoleFunctions db). RoleFunction.RoleId rf = roleId \<and> FunctionId rf = Id f}"
proof -
  have "set (filter (\<lambda>f. Id f \<in> set (map FunctionId
                  (filter (\<lambda>rf. RoleFunction.RoleId rf = roleId) (RoleFunctions db))))
          (Functions db)) =
        {f \<in> set (Functions db).
           \<exists>rf \<in> set (RoleFunctions db). RoleFunction.RoleId rf = roleId \<and> FunctionId rf = Id f}"
    by force
  then show ?thesis
    unfolding permissionsOf_def set_map by (rule arg_cong)
qed

lemma permissionsOf_catalog: "permissionsOf db roleId \<subseteq> set (map Function.Name (Functions db))"
  by (auto simp: permissionsOf_def)

lemma effectivePermissions_catalog:
  "effectivePermissions db userId orgId \<subseteq> set (map Function.Name (Functions db))"
proof
  fix p
  assume "p \<in> effectivePermissions db userId orgId"
  then obtain r :: Role where "p \<in> permissionsOf db (Id r)"
    by (auto simp: effectivePermissions_def split: if_splits)
  then show "p \<in> set (map Function.Name (Functions db))"
    using permissionsOf_catalog by blast
qed

lemma seed_grants_SuperAdmin:
  "(\<exists>rf \<in> set (seedRoleFunctions env).
      RoleFunction.RoleId rf = SeedIds_Roles_SuperAdmin \<and> FunctionId rf = g) \<longleftrightarrow>
   g \<in> set GetAllFunctionIds"
  unfolding granted_iff seedRoleFunctions_grants
  by (auto simp: SeedIds_Roles_defs)

lemma seed_grants_Viewer:
  "(\<exists>rf \<in> set (seedRoleFunctions env).
      RoleFunction.RoleId rf = SeedIds_Roles_Viewer \<and> FunctionId rf = g) \<longleftrightarrow>
   g \<in> set viewerFunctionIds"
  unfolding granted_iff seedRoleFunctions_grants
  by (auto simp: SeedIds_Roles_defs)

lemma permissionsOf_SuperAdmin_seeded:
  assumes "Functions db = GetSystemFunctions env" "RoleFunctions db = seedRoleFunctions env'"
  shows "permissionsOf db SeedIds_Roles_SuperAdmin = set (map Function.Name (Functions db))"
proof -
  have "set GetAllFunctionIds = Id ` set (GetSystemFunctions env)"
    by (simp flip: GetSystemFunctions_Ids [of env])
  then have "Id f \<in> set GetAllFunctionIds" if "f \<in> set (GetSystemFunctions env)" for f :: Function
    using that by blast
  then show ?thesis
    by (auto simp: permissionsOf_grants assms seed_grants_SuperAdmin)
qed

lemma isMember_seeded:
  "OrganizationMemberships db = [seedMembership env] \<Longrightarrow>
   isMember db SeedIds_Users_Rodrigo SeedIds_Organizations_Rugertek"
  by (simp add: isMember_def seedMembership_def)

lemma rolesOf_seeded:
  assumes "Roles db = seedRoles env" "UserRoles db = [seedUserRole env']"
  shows "map Id (rolesOf db SeedIds_Users_Rodrigo SeedIds_Organizations_Rugertek) =
           [SeedIds_Roles_SuperAdmin]"
  by (simp add: rolesOf_def assms seedRoles_def seedUserRole_def newRole_def Let_def
      SeedIds_Roles_defs)

lemma effectivePermissions_seeded:
  assumes "OrganizationMemberships db = [seedMembership env]"
    "Roles db = seedRoles env" "UserRoles db = [seedUserRole env]"
  shows "effectivePermissions db SeedIds_Users_Rodrigo SeedIds_Organizations_Rugertek =
           permissionsOf db SeedIds_Roles_SuperAdmin"
proof -
  have "map (\<lambda>r. permissionsOf db (Id r))
          (rolesOf db SeedIds_Users_Rodrigo SeedIds_Organizations_Rugertek) =
        map (permissionsOf db)
          (map Id (rolesOf db SeedIds_Users_Rodrigo SeedIds_Organizations_Rugertek))"
    by simp
  then show ?thesis
    unfolding rolesOf_seeded [OF assms(2,3)]
    by (simp add: effectivePermissions_def isMember_seeded [OF assms(1)])
qed

lemma permissionsOf_register:
  assumes "Functions db = GetSystemFunctions env" "RoleFunctions db = seedRoleFunctions env'"
    and "Id f \<notin> set (map Id (Functions db))"
  shows "permissionsOf (db\<lparr>Functions := Functions db @ [f]\<rparr>) SeedIds_Roles_SuperAdmin =
         permissionsOf db SeedIds_Roles_SuperAdmin"
proof -
  have "Id f \<notin> set GetAllFunctionIds"
    using assms(3) by (simp add: assms(1) GetSystemFunctions_Ids)
  then show ?thesis
    by (auto simp: permissionsOf_grants assms(2) seed_grants_SuperAdmin)
qed

lemma SuperAdmin_rows:
  assumes "Functions db = GetSystemFunctions env" "RoleFunctions db = seedRoleFunctions env'"
  shows "\<forall>f \<in> set (Functions db). (SeedIds_Roles_SuperAdmin, Id f) \<in> set (grantedPairs db)"
proof
  fix f :: Function
  assume "f \<in> set (Functions db)"
  then have "Id f \<in> set (map Id (GetSystemFunctions env))"
    unfolding assms(1) by simp
  then show "(SeedIds_Roles_SuperAdmin, Id f) \<in> set (grantedPairs db)"
    unfolding grantedPairs_iff assms(2) seed_grants_SuperAdmin GetSystemFunctions_Ids .
qed

lemma seedGuards_register:
  "seedGuards db \<Longrightarrow> seedGuards (db\<lparr>Functions := Functions db @ [f]\<rparr>)"
  by (simp add: seedGuards_def AnyWithId_append)

lemma GetSystemFunctions_Names:
  "map Function.Name (GetSystemFunctions env) =
     [SystemFunctions_UserManagement_ViewUsers, SystemFunctions_UserManagement_CreateUsers,
      SystemFunctions_UserManagement_UpdateUsers, SystemFunctions_UserManagement_DeleteUsers,
      SystemFunctions_UserManagement_ManageUserRoles,
      SystemFunctions_UserManagement_ViewUserRoles,
      SystemFunctions_UserManagement_InviteUsers,
      SystemFunctions_UserManagement_DeactivateUsers,
      SystemFunctions_UserManagement_ReactivateUsers,
      SystemFunctions_UserManagement_ViewUserActivity,
      SystemFunctions_OrganizationManagement_ViewOrganization,
      SystemFunctions_OrganizationManagement_UpdateOrganization,
      SystemFunctions_OrganizationManagement_ManageSettings,
      SystemFunctions_OrganizationManagement_ViewSettings,
      SystemFunctions_OrganizationManagement_ManageBilling,
      SystemFunctions_OrganizationManagement_ViewBilling,
      SystemFunctions_OrganizationManagement_ManageIntegrations,
      SystemFunctions_OrganizationManagement_ViewIntegrations,
      SystemFunctions_OrganizationManagement_ManageApiKeys,
      SystemFunctions_OrganizationManagement_ViewApiKeys,
      SystemFunctions_OrganizationManagement_ManageWebhooks,
      SystemFunctions_OrganizationManagement_ViewWebhooks,
      SystemFunctions_OrganizationManagement_ViewAuditLog,
      SystemFunctions_OrganizationManagement_ExportData,
      SystemFunctions_RoleManagement_ViewRoles, SystemFunctions_RoleManagement_CreateRoles,
      SystemFunctions_RoleManagement_UpdateRoles, SystemFunctions_RoleManagement_DeleteRoles,
      SystemFunctions_RoleManagement_AssignFunctions,
      SystemFunctions_FunctionManagement_ViewFunctions,
      SystemFunctions_FunctionManagement_CreateFunctions,
      SystemFunctions_FunctionManagement_UpdateFunctions,
      SystemFunctions_FunctionManagement_DeleteFunctions]"
  by (simp add: GetSystemFunctions_def newFunction_def Let_def)

lemma demoFunction_new:
  "Id demoFunction \<notin> set (map Id (GetSystemFunctions env))"
  "Function.Name demoFunction \<notin> set (map Function.Name (GetSystemFunctions env))"
  unfolding GetSystemFunctions_Ids GetSystemFunctions_Names
  by (simp_all add: demoFunction_def newFunction_def GetAllFunctionIds_def
      SeedIds_Functions_defs SystemFunctions_defs)

text \<open>
  Claim C3. A first run of the seeder on an empty database completes, and in its result
  the role Super Administrator has a \<open>RoleFunction\<close> row for every function of the
  catalog (the \<open>Functions\<close> table), so the role grants every permission and the effective
  permissions of the seeded user, who is assigned that role, are the whole catalog. A permission registered in the catalog afterwards
  (a new row of \<open>Functions\<close> with a new \<open>Id\<close> and a new \<open>Name\<close>) is not among the grants
  of the role nor among the user's effective permissions, also after the seeder has run
  again; it is granted once a \<open>RoleFunction\<close> row for it is added.
\<close>

theorem SuperAdmin_granted_whole_catalog:
  assumes "distinct (map (newGuid env) [0..<77])"
  shows "\<exists>db. SeedAsync fw env emptyDb = Inr db \<and>
     Functions db = GetSystemFunctions env \<and>
     (\<forall>f \<in> set (Functions db). (SeedIds_Roles_SuperAdmin, Id f) \<in> set (grantedPairs db)) \<and>
     permissionsOf db SeedIds_Roles_SuperAdmin = set (map Function.Name (Functions db)) \<and>
     effectivePermissions db SeedIds_Users_Rodrigo SeedIds_Organizations_Rugertek =
       set (map Function.Name (Functions db)) \<and>
     (\<forall>f. Id f \<notin> set (map Id (Functions db)) \<and>
          Function.Name f \<notin> set (map Function.Name (Functions db)) \<longrightarrow>
          Function.Name f \<notin>
            permissionsOf (db\<lparr>Functions := Functions db @ [f]\<rparr>) SeedIds_Roles_SuperAdmin \<and>
          Function.Name f \<notin>
            effectivePermissions (db\<lparr>Functions := Functions db @ [f]\<rparr>)
              SeedIds_Users_Rodrigo SeedIds_Organizations_Rugertek \<and>
          SeedAsync fw env' (db\<lparr>Functions := Functions db @ [f]\<rparr>) =
            Inr (db\<lparr>Functions := Functions db @ [f]\<rparr>) \<and>
          (\<forall>rf. RoleFunction.RoleId rf = SeedIds_Roles_SuperAdmin \<and> FunctionId rf = Id f \<longrightarrow>
             Function.Name f \<in>
               permissionsOf (db\<lparr>Functions := Functions db @ [f],
                                 RoleFunctions := RoleFunctions db @ [rf]\<rparr>)
                 SeedIds_Roles_SuperAdmin))"
proof -
  obtain h db where run: "SeedAsync fw env emptyDb = Inr db"
    and db: "db = \<lparr>Organizations = [seedOrganization env],
            Users = [seedUser env h],
            OrganizationMemberships = [seedMembership env],
            Functions = GetSystemFunctions env,
            Roles = seedRoles env,
            RoleFunctions = seedRoleFunctions env,
            UserRoles = [seedUserRole env]\<rparr>"
    using SeedAsync_emptyDb [OF assms, of fw] by blast
  have tables: "Functions db = GetSystemFunctions env" "RoleFunctions db = seedRoleFunctions env"
    "OrganizationMemberships db = [seedMembership env]" "Roles db = seedRoles env"
    "UserRoles db = [seedUserRole env]"
    by (simp_all add: db)
  have sa: "permissionsOf db SeedIds_Roles_SuperAdmin = set (map Function.Name (Functions db))"
    by (rule permissionsOf_SuperAdmin_seeded [OF tables(1,2)])
  have eff: "effectivePermissions db SeedIds_Users_Rodrigo SeedIds_Organizations_Rugertek =
      set (map Function.Name (Functions db))"
    using effectivePermissions_seeded [OF tables(3,4,5)] sa by simp
  have later: "Function.Name f \<notin>
            permissionsOf (db\<lparr>Functions := Functions db @ [f]\<rparr>) SeedIds_Roles_SuperAdmin \<and>
          Function.Name f \<notin>
            effectivePermissions (db\<lparr>Functions := Functions db @ [f]\<rparr>)
              SeedIds_Users_Rodrigo SeedIds_Organizations_Rugertek \<and>
          SeedAsync fw env' (db\<lparr>Functions := Functions db @ [f]\<rparr>) =
            Inr (db\<lparr>Functions := Functions db @ [f]\<rparr>) \<and>
          (\<forall>rf. RoleFunction.RoleId rf = SeedIds_Roles_SuperAdmin \<and> FunctionId rf = Id f \<longrightarrow>
             Function.Name f \<in>
               permissionsOf (db\<lparr>Functions := Functions db @ [f],
                                 RoleFunctions := RoleFunctions db @ [rf]\<rparr>)
                 SeedIds_Roles_SuperAdmin)"
    if fresh: "Id f \<notin> set (map Id (Functions db))"
      "Function.Name f \<notin> set (map Function.Name (Functions db))" for f
  proof -
    let ?db' = "db\<lparr>Functions := Functions db @ [f]\<rparr>"
    have p: "permissionsOf ?db' SeedIds_Roles_SuperAdmin = set (map Function.Name (Functions db))"
      using permissionsOf_register [OF tables(1,2) fresh(1)] sa by simp
    have e: "effectivePermissions ?db' SeedIds_Users_Rodrigo SeedIds_Organizations_Rugertek =
        permissionsOf ?db' SeedIds_Roles_SuperAdmin"
      by (rule effectivePermissions_seeded [of _ env]) (simp_all add: tables)
    have s: "SeedAsync fw env' ?db' = Inr ?db'"
      by (rule SeedAsync_guards [OF seedGuards_register [OF SeedAsync_Inr_guards [OF run]]])
    have g: "Function.Name f \<in>
               permissionsOf (db\<lparr>Functions := Functions db @ [f],
                                 RoleFunctions := RoleFunctions db @ [rf]\<rparr>)
                 SeedIds_Roles_SuperAdmin"
      if "RoleFunction.RoleId rf = SeedIds_Roles_SuperAdmin \<and> FunctionId rf = Id f" for rf
      using that by (force simp: permissionsOf_grants)
    show ?thesis
      using p e s g fresh(2) by simp
  qed
  have rows: "\<forall>f \<in> set (Functions db).
      (SeedIds_Roles_SuperAdmin, Id f) \<in> set (grantedPairs db)"
    by (rule SuperAdmin_rows [OF tables(1,2)])
  show ?thesis
    using run tables(1) rows sa eff later by blast
qed

theorem SuperAdmin_granted_whole_catalog_witness:
  "distinct (map (newGuid demoEnv) [0..<77]) \<and>
   (\<exists>db. SeedAsync demoFramework demoEnv emptyDb = Inr db \<and>
      permissionsOf db SeedIds_Roles_SuperAdmin = set (map Function.Name (Functions db)) \<and>
      effectivePermissions db SeedIds_Users_Rodrigo SeedIds_Organizations_Rugertek =
        set (map Function.Name (Functions db)) \<and>
      Id demoFunction \<notin> set (map Id (Functions db)) \<and>
      Function.Name demoFunction \<notin> set (map Function.Name (Functions db)) \<and>
      Function.Name demoFunction \<notin>
        permissionsOf (db\<lparr>Functions := Functions db @ [demoFunction]\<rparr>)
          SeedIds_Roles_SuperAdmin \<and>
      SeedAsync demoFramework demoEnv (db\<lparr>Functions := Functions db @ [demoFunction]\<rparr>) =
        Inr (db\<lparr>Functions := Functions db @ [demoFunction]\<rparr>) \<and>
      RoleFunction.RoleId demoRoleFunction = SeedIds_Roles_SuperAdmin \<and>
      FunctionId demoRoleFunction = Id demoFunction \<and>
      Function.Name demoFunction \<in>
        permissionsOf (db\<lparr>Functions := Functions db @ [demoFunction],
                          RoleFunctions := RoleFunctions db @ [demoRoleFunction]\<rparr>)
          SeedIds_Roles_SuperAdmin)"
proof -
  obtain db where db: "SeedAsync demoFramework demoEnv emptyDb = Inr db"
    "Functions db = GetSystemFunctions demoEnv"
    "permissionsOf db SeedIds_Roles_SuperAdmin = set (map Function.Name (Functions db))"
    "effectivePermissions db SeedIds_Users_Rodrigo SeedIds_Organizations_Rugertek =
       set (map Function.Name (Functions db))"
    and later: "\<forall>f. Id f \<notin> set (map Id (Functions db)) \<and>
          Function.Name f \<notin> set (map Function.Name (Functions db)) \<longrightarrow>
          Function.Name f \<notin>
            permissionsOf (db\<lparr>Functions := Functions db @ [f]\<rparr>) SeedIds_Roles_SuperAdmin \<and>
          Function.Name f \<notin>
            effectivePermissions (db\<lparr>Functions := Functions db @ [f]\<rparr>)
              SeedIds_Users_Rodrigo SeedIds_Organizations_Rugertek \<and>
          SeedAsync demoFramework demoEnv (db\<lparr>Functions := Functions db @ [f]\<rparr>) =
            Inr (db\<lparr>Functions := Functions db @ [f]\<rparr>) \<and>
          (\<forall>rf. RoleFunction.RoleId rf = SeedIds_Roles_SuperAdmin \<and> FunctionId rf = Id f \<longrightarrow>
             Function.Name f \<in>
               permissionsOf (db\<lparr>Functions := Functions db @ [f],
                                 RoleFunctions := RoleFunctions db @ [rf]\<rparr>)
                 SeedIds_Roles_SuperAdmin)"
    using SuperAdmin_granted_whole_catalog [OF demoEnv_distinct, of demoFramework demoEnv]
    by blast
  have new: "Id demoFunction \<notin> set (map Id (Functions db))"
    "Function.Name demoFunction \<notin> set (map Function.Name (Functions db))"
    unfolding db(2) by (rule demoFunction_new)+
  have rf: "RoleFunction.RoleId demoRoleFunction = SeedIds_Roles_SuperAdmin"
    "FunctionId demoRoleFunction = Id demoFunction"
    by (simp_all add: demoRoleFunction_def demoFunction_def newFunction_def)
  note l = later [rule_format, of demoFunction, OF conjI [OF new]]
  note g = l [THEN conjunct2, THEN conjunct2, THEN conjunct2, rule_format, OF conjI [OF rf]]
  show ?thesis
    using demoEnv_distinct db(1,3,4) new l [THEN conjunct1]
      l [THEN conjunct2, THEN conjunct2, THEN conjunct1] rf g
    by blast
qed

lemma viewer_rows:
  "list_all (\<lambda>f. (Id f \<in> set viewerFunctionIds) =
       (EndsWith (Function.Name f) ''.view'' \<and>
        Function.Name f \<noteq> SystemFunctions_UserManagement_ViewUserActivity \<and>
        Function.Name f \<noteq> SystemFunctions_OrganizationManagement_ViewAuditLog))
     (GetSystemFunctions env)"
  by (simp add: GetSystemFunctions_def newFunction_def Let_def viewerFunctionIds_def
      SeedIds_Functions_defs SystemFunctions_defs EndsWith_def)

lemma GetSystemFunctions_catalog:
  "(SeedIds_Functions_UsersActivityView, SystemFunctions_UserManagement_ViewUserActivity) \<in>
     set (zip (map Id (GetSystemFunctions env)) (map Function.Name (GetSystemFunctions env)))"
  unfolding GetSystemFunctions_Ids GetSystemFunctions_Names GetAllFunctionIds_def
  by simp

text \<open>
  Claim C4, as amended. After a first run of the seeder on an empty database the role
  Viewer has a \<open>RoleFunction\<close> row for a function of the catalog exactly when the name of
  the function ends in \<^verbatim>\<open>.view\<close> and is neither \<^verbatim>\<open>users.activity.view\<close> nor
  \<^verbatim>\<open>organization.auditlog.view\<close>: the list \<open>viewerFunctionIds\<close> holds view permissions
  only, and leaves those two out.
\<close>

theorem Viewer_granted_view_permissions:
  assumes "distinct (map (newGuid env) [0..<77])"
  shows "\<exists>db. SeedAsync fw env emptyDb = Inr db \<and>
     (\<forall>f \<in> set (Functions db).
        ((SeedIds_Roles_Viewer, Id f) \<in> set (grantedPairs db)) =
        (EndsWith (Function.Name f) ''.view'' \<and>
         Function.Name f \<noteq> SystemFunctions_UserManagement_ViewUserActivity \<and>
         Function.Name f \<noteq> SystemFunctions_OrganizationManagement_ViewAuditLog))"
proof -
  obtain h db where run: "SeedAsync fw env emptyDb = Inr db"
    and db: "db = \<lparr>Organizations = [seedOrganization env],
            Users = [seedUser env h],
            OrganizationMemberships = [seedMembership env],
            Functions = GetSystemFunctions env,
            Roles = seedRoles env,
            RoleFunctions = seedRoleFunctions env,
            UserRoles = [seedUserRole env]\<rparr>"
    using SeedAsync_emptyDb [OF assms, of fw] by blast
  have tables: "Functions db = GetSystemFunctions env" "RoleFunctions db = seedRoleFunctions env"
    by (simp_all add: db)
  have "\<forall>f \<in> set (Functions db).
        ((SeedIds_Roles_Viewer, Id f) \<in> set (grantedPairs db)) =
        (EndsWith (Function.Name f) ''.view'' \<and>
         Function.Name f \<noteq> SystemFunctions_UserManagement_ViewUserActivity \<and>
         Function.Name f \<noteq> SystemFunctions_OrganizationManagement_ViewAuditLog)"
    unfolding grantedPairs_iff tables seed_grants_Viewer
    using viewer_rows [of env] unfolding list_all_iff .
  with run show ?thesis
    by blast
qed

theorem Viewer_granted_view_permissions_witness:
  "distinct (map (newGuid demoEnv) [0..<77]) \<and>
   (\<exists>db. SeedAsync demoFramework demoEnv emptyDb = Inr db \<and>
     (\<forall>f \<in> set (Functions db).
        ((SeedIds_Roles_Viewer, Id f) \<in> set (grantedPairs db)) =
        (EndsWith (Function.Name f) ''.view'' \<and>
         Function.Name f \<noteq> SystemFunctions_UserManagement_ViewUserActivity \<and>
         Function.Name f \<noteq> SystemFunctions_OrganizationManagement_ViewAuditLog)))"
  using demoEnv_distinct
    Viewer_granted_view_permissions [OF demoEnv_distinct, of demoFramework]
  by (rule conjI)

lemma projr_SeedAsync_demo:
  "\<not> isl (SeedAsync demoFramework demoEnv emptyDb)"
  "Functions (projr (SeedAsync demoFramework demoEnv emptyDb)) = GetSystemFunctions demoEnv"
  "RoleFunctions (projr (SeedAsync demoFramework demoEnv emptyDb)) = seedRoleFunctions demoEnv"
proof -
  obtain db where "SeedAsync demoFramework demoEnv emptyDb = Inr db"
    "Functions db = GetSystemFunctions demoEnv" "RoleFunctions db = seedRoleFunctions demoEnv"
    using SeedAsync_emptyDb [OF demoEnv_distinct, of demoFramework] by force
  then show "\<not> isl (SeedAsync demoFramework demoEnv emptyDb)"
    "Functions (projr (SeedAsync demoFramework demoEnv emptyDb)) = GetSystemFunctions demoEnv"
    "RoleFunctions (projr (SeedAsync demoFramework demoEnv emptyDb)) = seedRoleFunctions demoEnv"
    by simp_all
qed

theorem Viewer_every_view_permission_counterexample:
  "\<not> isl (SeedAsync demoFramework demoEnv emptyDb) \<and>
   (SeedIds_Functions_UsersActivityView, SystemFunctions_UserManagement_ViewUserActivity) \<in>
     set (zip (map Id (Functions (projr (SeedAsync demoFramework demoEnv emptyDb))))
              (map Function.Name (Functions (projr (SeedAsync demoFramework demoEnv emptyDb))))) \<and>
   EndsWith SystemFunctions_UserManagement_ViewUserActivity ''.view'' \<and>
   (SeedIds_Roles_Viewer, SeedIds_Functions_UsersActivityView) \<notin>
     set (grantedPairs (projr (SeedAsync demoFramework demoEnv emptyDb)))"
proof (intro conjI)
  show "\<not> isl (SeedAsync demoFramework demoEnv emptyDb)"
    by (rule projr_SeedAsync_demo(1))
  show "(SeedIds_Functions_UsersActivityView, SystemFunctions_UserManagement_ViewUserActivity) \<in>
     set (zip (map Id (Functions (projr (SeedAsync demoFramework demoEnv emptyDb))))
              (map Function.Name (Functions (projr (SeedAsync demoFramework demoEnv emptyDb)))))"
    unfolding projr_SeedAsync_demo(2) by (rule GetSystemFunctions_catalog)
  show "EndsWith SystemFunctions_UserManagement_ViewUserActivity ''.view''"
    by (simp add: EndsWith_def SystemFunctions_UserManagement_ViewUserActivity_def)
  show "(SeedIds_Roles_Viewer, SeedIds_Functions_UsersActivityView) \<notin>
     set (grantedPairs (projr (SeedAsync demoFramework demoEnv emptyDb)))"
    unfolding grantedPairs_iff projr_SeedAsync_demo(3) seed_grants_Viewer
    by (simp add: viewerFunctionIds_def SeedIds_Functions_defs)
qed

subsection \<open>The resolver\<close>

lemmas demo_defs = demoDb_def demoOrganization_def demoUser_def demoMembership_def
  demoGrant_def demoUserRole_def newFunction_def newRole_def

lemma demo_isMember: "isMember demoDb 3 1" "\<not> isMember demoDb 4 1"
  by (simp_all add: isMember_def demo_defs)

lemma demo_permissionsOf:
  "permissionsOf demoDb 9 = {''users.view''}"
  "permissionsOf demoDb 10 = {''users.view'', ''users.create''}"
  "permissionsOf demoDb 11 = {''users.delete''}"
  by (simp_all add: permissionsOf_def demo_defs)

lemma demo_rolesOf:
  "map Id (rolesOf demoDb 3 1) = [9, 10]"
  "map Id (rolesOf demoDb 4 1) = [10]"
  by (simp_all add: rolesOf_def demo_defs)

text \<open>
  Claim C1. A user without a membership row for the organization has no effective
  permissions there, and \<open>authorize\<close> answers \<open>False\<close> for every permission identifier.
  Both functions are total: the answer is a value, never an exception.
\<close>

theorem no_membership_no_permissions:
  assumes "\<forall>m \<in> set (OrganizationMemberships db).
             \<not> (OrganizationMembership.UserId m = userId \<and>
                OrganizationMembership.OrganizationId m = orgId)"
  shows "effectivePermissions db userId orgId = {} \<and>
         authorize db userId orgId permissionId = False"
proof -
  have "\<not> isMember db userId orgId"
    using assms by (auto simp: isMember_def)
  then show ?thesis
    by (simp add: effectivePermissions_def authorize_def)
qed

theorem no_membership_no_permissions_witness:
  "(4, 1) \<notin>
     set (zip (map OrganizationMembership.UserId (OrganizationMemberships demoDb))
              (map OrganizationMembership.OrganizationId (OrganizationMemberships demoDb))) \<and>
   map Id (rolesOf demoDb 4 1) = [10] \<and>
   permissionsOf demoDb 10 = {''users.view'', ''users.create''} \<and>
   effectivePermissions demoDb 4 1 = {} \<and>
   authorize demoDb 4 1 ''users.view'' = False"
proof -
  have h: "\<forall>m \<in> set (OrganizationMemberships demoDb).
      \<not> (OrganizationMembership.UserId m = 4 \<and> OrganizationMembership.OrganizationId m = 1)"
    by (simp add: demo_defs)
  have "(4, 1) \<notin>
     set (zip (map OrganizationMembership.UserId (OrganizationMemberships demoDb))
              (map OrganizationMembership.OrganizationId (OrganizationMemberships demoDb)))"
    by (simp add: demo_defs)
  then show ?thesis
    using no_membership_no_permissions [OF h, of "''users.view''"] demo_rolesOf(2)
      demo_permissionsOf(2)
    by simp
qed



lemma seeded_assignments_have_memberships:
  assumes "distinct (map (newGuid env) [0..<77])"
  shows "\<exists>db. SeedAsync fw env emptyDb = Inr db \<and>
     (\<forall>ur \<in> set (UserRoles db). \<exists>m \<in> set (OrganizationMemberships db).
        OrganizationMembership.UserId m = UserRole.UserId ur \<and>
        OrganizationMembership.OrganizationId m = UserRole.OrganizationId ur)"
proof -
  obtain h db where run: "SeedAsync fw env emptyDb = Inr db"
    and db: "db = \<lparr>Organizations = [seedOrganization env],
            Users = [seedUser env h],
            OrganizationMemberships = [seedMembership env],
            Functions = GetSystemFunctions env,
            Roles = seedRoles env,
            RoleFunctions = seedRoleFunctions env,
            UserRoles = [seedUserRole env]\<rparr>"
    using SeedAsync_emptyDb [OF assms, of fw] by blast
  have "\<forall>ur \<in> set (UserRoles db). \<exists>m \<in> set (OrganizationMemberships db).
        OrganizationMembership.UserId m = UserRole.UserId ur \<and>
        OrganizationMembership.OrganizationId m = UserRole.OrganizationId ur"
    by (simp add: db seedUserRole_def seedMembership_def)
  with run show ?thesis
    by blast
qed






lemma filter_mark_deleted:
  fixes rs :: "Role list"
  shows "filter (\<lambda>r. DeletedAt r = None \<and> A (Id r))
           (map (\<lambda>r. if Id r = roleId then r\<lparr>DeletedAt := Some now\<rparr> else r) rs) =
         filter (\<lambda>r. Id r \<noteq> roleId) (filter (\<lambda>r. DeletedAt r = None \<and> A (Id r)) rs)"
  by (induction rs) simp_all

lemma map_Id_mark_deleted:
  fixes rs :: "Role list"
  shows "map Id (map (\<lambda>r. if Id r = roleId then r\<lparr>DeletedAt := Some now\<rparr> else r) rs) =
         map Id rs"
  by (induction rs) simp_all

lemma marked_deleted:
  fixes rs :: "Role list"
  assumes "r \<in> set (map (\<lambda>r. if Id r = roleId then r\<lparr>DeletedAt := Some now\<rparr> else r) rs)"
    and "Id r = roleId"
  shows "DeletedAt r = Some now"
proof -
  from assms(1) obtain r0
    where r0: "r = (if Id r0 = roleId then r0\<lparr>DeletedAt := Some now\<rparr> else r0)"
    unfolding set_map by (rule imageE)
  show ?thesis
  proof (cases "Id r0 = roleId")
    case True
    then have "(if Id r0 = roleId then r0\<lparr>DeletedAt := Some now\<rparr> else r0) =
        r0\<lparr>DeletedAt := Some now\<rparr>"
      by (rule if_P)
    with r0 have "r = r0\<lparr>DeletedAt := Some now\<rparr>"
      by (rule trans)
    then show ?thesis
      by simp
  next
    case False
    then have "(if Id r0 = roleId then r0\<lparr>DeletedAt := Some now\<rparr> else r0) = r0"
      by (rule if_not_P)
    with r0 have "r = r0"
      by (rule trans)
    with False assms(2) show ?thesis
      by blast
  qed
qed

lemma rolesOf_deleteRole:
  "rolesOf (deleteRole db roleId now) userId orgId =
     filter (\<lambda>r. Id r \<noteq> roleId) (rolesOf db userId orgId)"
  unfolding rolesOf_def deleteRole_def
  using filter_mark_deleted [of "\<lambda>i. \<exists>ur \<in> set (UserRoles db).
      UserRole.UserId ur = userId \<and> UserRole.RoleId ur = i \<and> UserRole.OrganizationId ur = orgId"
      roleId now "Roles db"]
  by simp

lemma permissionsOf_deleteRole:
  "permissionsOf (deleteRole db roleId now) r = permissionsOf db r"
  by (simp add: permissionsOf_def deleteRole_def)

text \<open>
  Claim C8. \<open>deleteRole\<close> leaves the tables \<open>RoleFunctions\<close> and \<open>UserRoles\<close> as they are and
  keeps every role row, writing the deletion time into the rows with the given \<open>Id\<close>.
  From then on the effective permissions of every user in every organization are the
  union over the user's remaining roles: the deleted role contributes nothing.
\<close>

theorem deleteRole_soft_delete:
  "RoleFunctions (deleteRole db roleId now) = RoleFunctions db \<and>
   UserRoles (deleteRole db roleId now) = UserRoles db \<and>
   map Id (Roles (deleteRole db roleId now)) = map Id (Roles db) \<and>
   (\<forall>r \<in> set (Roles (deleteRole db roleId now)). Id r = roleId \<longrightarrow> DeletedAt r = Some now) \<and>
   effectivePermissions (deleteRole db roleId now) userId orgId =
     (if isMember db userId orgId
      then \<Union> (set (map (\<lambda>r. permissionsOf db (Id r))
               (filter (\<lambda>r. Id r \<noteq> roleId) (rolesOf db userId orgId))))
      else {})"
proof -
  have m: "isMember (deleteRole db roleId now) userId orgId = isMember db userId orgId"
    by (simp add: isMember_def deleteRole_def)
  have i: "map Id (Roles (deleteRole db roleId now)) = map Id (Roles db)"
    by (simp add: deleteRole_def map_Id_mark_deleted)
  have r: "Roles (deleteRole db roleId now) =
      map (\<lambda>r. if Id r = roleId then r\<lparr>DeletedAt := Some now\<rparr> else r) (Roles db)"
    by (simp add: deleteRole_def)
  have d: "\<forall>r \<in> set (Roles (deleteRole db roleId now)). Id r = roleId \<longrightarrow> DeletedAt r = Some now"
    unfolding r by (intro ballI impI) (rule marked_deleted)
  have t: "RoleFunctions (deleteRole db roleId now) = RoleFunctions db"
    "UserRoles (deleteRole db roleId now) = UserRoles db"
    by (simp_all add: deleteRole_def)
  have e: "effectivePermissions (deleteRole db roleId now) userId orgId =
     (if isMember db userId orgId
      then \<Union> (set (map (\<lambda>r. permissionsOf db (Id r))
               (filter (\<lambda>r. Id r \<noteq> roleId) (rolesOf db userId orgId))))
      else {})"
    by (simp only: effectivePermissions_def m rolesOf_deleteRole permissionsOf_deleteRole)
  show ?thesis
  proof (intro conjI)
    show "RoleFunctions (deleteRole db roleId now) = RoleFunctions db"
      by (rule t(1))
    show "UserRoles (deleteRole db roleId now) = UserRoles db"
      by (rule t(2))
    show "map Id (Roles (deleteRole db roleId now)) = map Id (Roles db)"
      by (rule i)
    show "\<forall>r \<in> set (Roles (deleteRole db roleId now)).
            Id r = roleId \<longrightarrow> DeletedAt r = Some now"
      by (rule d)
    show "effectivePermissions (deleteRole db roleId now) userId orgId =
       (if isMember db userId orgId
        then \<Union> (set (map (\<lambda>r. permissionsOf db (Id r))
                 (filter (\<lambda>r. Id r \<noteq> roleId) (rolesOf db userId orgId))))
        else {})"
      by (rule e)
  qed
qed

theorem deleteRole_soft_delete_witness:
  "effectivePermissions demoDb 3 1 = {''users.view'', ''users.create''} \<and>
   effectivePermissions (deleteRole demoDb 10 99) 3 1 = {''users.view''} \<and>
   UserRoles (deleteRole demoDb 10 99) = UserRoles demoDb \<and>
   RoleFunctions (deleteRole demoDb 10 99) = RoleFunctions demoDb"
proof -
  obtain r1 r2 where r: "rolesOf demoDb 3 1 = [r1, r2]" "Id r1 = 9" "Id r2 = 10"
    using demo_rolesOf(1) by auto
  have "effectivePermissions demoDb 3 1 = {''users.view'', ''users.create''}"
    using r by (auto simp: effectivePermissions_def demo_isMember demo_permissionsOf)
  moreover have "effectivePermissions (deleteRole demoDb 10 99) 3 1 = {''users.view''}"
    using deleteRole_soft_delete [of demoDb 10 99 3 1] r
    by (simp add: demo_isMember demo_permissionsOf)
  ultimately show ?thesis
    using deleteRole_soft_delete [of demoDb 10 99 3 1] by simp
qed

subsection \<open>Writing role assignments\<close>

lemma AddUserRole_accepts:
  "AddUserRole db ur =
     (if Id ur \<notin> set (map Id (UserRoles db)) \<and>
         UserRole.OrganizationId ur \<in> set (map Id (Organizations db)) \<and>
         UserRole.RoleId ur \<in> set (map Id (Roles db)) \<and>
         UserRole.UserId ur \<in> set (map Id (Users db)) \<and>
         (\<forall>x \<in> set (UserRoles db). \<not> sameTriple ur x)
      then Inr (db\<lparr>UserRoles := UserRoles db @ [ur]\<rparr>)
      else Inl DbUpdateException)"
  by (simp add: AddUserRole_def userRoleAccepts_def primaryKeyAccepts_def AnyWithId_def
      filter_empty_conv)

lemma demo_cross_organization:
  "newRole 9 ''Viewer'' ''Read-only'' ''Observation'' ''General'' 1 16 \<in> set (Roles demoDb)"
  "UserRole.RoleId (demoUserRole 20 3 9 2) =
     Id (newRole 9 ''Viewer'' ''Read-only'' ''Observation'' ''General'' 1 16)"
  "Role.OrganizationId (newRole 9 ''Viewer'' ''Read-only'' ''Observation'' ''General'' 1 16) \<noteq>
     UserRole.OrganizationId (demoUserRole 20 3 9 2)"
  "UserRole.OrganizationId (demoUserRole 20 3 9 2) \<in> set (map Id (Organizations demoDb))"
  "UserRole.UserId (demoUserRole 20 3 9 2) \<in> set (map Id (Users demoDb))"
  "Id (demoUserRole 20 3 9 2) \<notin> set (map Id (UserRoles demoDb))"
  "\<forall>x \<in> set (UserRoles demoDb). \<not> sameTriple (demoUserRole 20 3 9 2) x"
  by (simp_all add: demo_defs sameTriple_def)

text \<open>
  Claim C6, as amended. The table \<open>UserRoles\<close> does not compare the organization of an
  assignment with the organization that owns the role: a row for user \<open>u\<close>, role \<open>r\<close> and
  an organization other than the owner of \<open>r\<close> is stored, appended to the table, whenever
  the user, the role and the organization exist and neither the \<open>Id\<close> of the row nor its
  triple is already in the table.
\<close>

theorem AddUserRole_role_organization_unchecked:
  assumes "r \<in> set (Roles db)" and "UserRole.RoleId ur = Id r"
    and "Role.OrganizationId r \<noteq> UserRole.OrganizationId ur"
    and "UserRole.OrganizationId ur \<in> set (map Id (Organizations db))"
    and "UserRole.UserId ur \<in> set (map Id (Users db))"
    and "Id ur \<notin> set (map Id (UserRoles db))"
    and "\<forall>x \<in> set (UserRoles db). \<not> sameTriple ur x"
  shows "AddUserRole db ur = Inr (db\<lparr>UserRoles := UserRoles db @ [ur]\<rparr>)"
proof -
  have "UserRole.RoleId ur \<in> set (map Id (Roles db))"
    using assms(1,2) by simp
  then show ?thesis
    unfolding AddUserRole_accepts using assms(4-7) by simp
qed

theorem AddUserRole_role_organization_unchecked_witness:
  "Role.OrganizationId (newRole 9 ''Viewer'' ''Read-only'' ''Observation'' ''General'' 1 16) = 1 \<and>
   UserRole.OrganizationId (demoUserRole 20 3 9 2) = 2 \<and>
   AddUserRole demoDb (demoUserRole 20 3 9 2) =
     Inr (demoDb\<lparr>UserRoles := UserRoles demoDb @ [demoUserRole 20 3 9 2]\<rparr>)"
  using AddUserRole_role_organization_unchecked [OF demo_cross_organization]
  by (simp add: newRole_def demoUserRole_def)

theorem assignRole_OrganizationMismatch_counterexample:
  "(9, 1) \<in> set (zip (map Id (Roles demoDb)) (map Role.OrganizationId (Roles demoDb))) \<and>
   (3, 2) \<in> set (zip (map OrganizationMembership.UserId (OrganizationMemberships demoDb))
                    (map OrganizationMembership.OrganizationId (OrganizationMemberships demoDb))) \<and>
   AddUserRole demoDb (demoUserRole 20 3 9 2) =
     Inr (demoDb\<lparr>UserRoles := UserRoles demoDb @ [demoUserRole 20 3 9 2]\<rparr>) \<and>
   demoDb\<lparr>UserRoles := UserRoles demoDb @ [demoUserRole 20 3 9 2]\<rparr> \<noteq> demoDb"
proof -
  have "AddUserRole demoDb (demoUserRole 20 3 9 2) =
     Inr (demoDb\<lparr>UserRoles := UserRoles demoDb @ [demoUserRole 20 3 9 2]\<rparr>)"
    unfolding AddUserRole_accepts using demo_cross_organization(4-7) demo_cross_organization(1,2)
    by simp
  moreover have "UserRoles (demoDb\<lparr>UserRoles := UserRoles demoDb @ [demoUserRole 20 3 9 2]\<rparr>) \<noteq>
      UserRoles demoDb"
    by simp
  then have "demoDb\<lparr>UserRoles := UserRoles demoDb @ [demoUserRole 20 3 9 2]\<rparr> \<noteq> demoDb"
    by metis
  moreover have 
    "(9, 1) \<in> set (zip (map Id (Roles demoDb)) (map Role.OrganizationId (Roles demoDb)))"
    "(3, 2) \<in> set (zip (map OrganizationMembership.UserId (OrganizationMemberships demoDb))
                    (map OrganizationMembership.OrganizationId (OrganizationMemberships demoDb)))"
    by (simp_all add: demo_defs)
  ultimately show ?thesis
    by (intro conjI)
qed

lemma AddUserRole_Inr:
  assumes "AddUserRole db ur = Inr db'"
  shows "db' = db\<lparr>UserRoles := UserRoles db @ [ur]\<rparr>"
    and "\<forall>x \<in> set (UserRoles db). \<not> sameTriple ur x"
  using assms unfolding AddUserRole_accepts by (simp_all split: if_splits)

lemma sameTriple_sym: "sameTriple a b \<Longrightarrow> sameTriple b a"
  by (simp add: sameTriple_def)

lemma sameTriple_trans: "sameTriple a b \<Longrightarrow> sameTriple b c \<Longrightarrow> sameTriple a c"
  by (simp add: sameTriple_def)

text \<open>
  Claim C7. After an assignment has been written, writing the same triple (user, role,
  organization) again, under any \<open>Id\<close>, is rejected by the unique index and stores nothing:
  the table still holds exactly one row for the triple and the effective permissions of
  every user in every organization are unchanged. The seeder does not even attempt the
  second write: once \<open>SeedUserRolesAsync\<close> has completed, running it again returns the
  database as it is.
\<close>

theorem second_assignment_changes_nothing:
  "(AddUserRole before assigned = Inr db \<and> sameTriple ur assigned \<longrightarrow>
      AddUserRole db ur = Inl DbUpdateException \<and>
      stateAfter db (AddUserRole db ur) = db \<and>
      length (filter (sameTriple ur) (UserRoles (stateAfter db (AddUserRole db ur)))) = 1 \<and>
      effectivePermissions (stateAfter db (AddUserRole db ur)) userId orgId =
        effectivePermissions db userId orgId) \<and>
   (SeedUserRolesAsync envA before = Inr db \<longrightarrow>
      SeedUserRolesAsync env db = Inr db \<and>
      effectivePermissions (stateAfter db (SeedUserRolesAsync env db)) userId orgId =
        effectivePermissions db userId orgId)"
proof (intro conjI impI)
  assume a: "AddUserRole before assigned = Inr db \<and> sameTriple ur assigned"
  then have first: "AddUserRole before assigned = Inr db" and same: "sameTriple ur assigned"
    by simp_all
  have db: "UserRoles db = UserRoles before @ [assigned]"
    using AddUserRole_Inr(1) [OF first] by simp
  have none: "\<forall>x \<in> set (UserRoles before). \<not> sameTriple ur x"
    using AddUserRole_Inr(2) [OF first] same sameTriple_sym sameTriple_trans by blast
  have "\<not> (\<forall>x \<in> set (UserRoles db). \<not> sameTriple ur x)"
    unfolding db using same by simp
  then show rej: "AddUserRole db ur = Inl DbUpdateException"
    unfolding AddUserRole_accepts by simp
  then show st: "stateAfter db (AddUserRole db ur) = db"
    by (simp add: stateAfter_def)
  have "filter (sameTriple ur) (UserRoles before) = []"
    using none by (simp add: filter_empty_conv)
  then show "length (filter (sameTriple ur) (UserRoles (stateAfter db (AddUserRole db ur)))) = 1"
    unfolding st db using same by simp
  show "effectivePermissions (stateAfter db (AddUserRole db ur)) userId orgId =
        effectivePermissions db userId orgId"
    unfolding st ..
next
  assume s: "SeedUserRolesAsync envA before = Inr db"
  have "AnyWithId SeedIds_UserRoles_RodrigoSuperAdmin (UserRoles db)"
    by (rule SeedUserRolesAsync_Inr(1) [OF s])
  then show again: "SeedUserRolesAsync env db = Inr db"
    by (simp add: SeedUserRolesAsync_def)
  show "effectivePermissions (stateAfter db (SeedUserRolesAsync env db)) userId orgId =
        effectivePermissions db userId orgId"
    unfolding again by (simp add: stateAfter_def)
qed

theorem second_assignment_changes_nothing_witness:
  "AddUserRole demoDb (demoUserRole 20 3 9 2) =
     Inr (demoDb\<lparr>UserRoles := UserRoles demoDb @ [demoUserRole 20 3 9 2]\<rparr>) \<and>
   sameTriple (demoUserRole 21 3 9 2) (demoUserRole 20 3 9 2) \<and>
   AddUserRole (demoDb\<lparr>UserRoles := UserRoles demoDb @ [demoUserRole 20 3 9 2]\<rparr>)
     (demoUserRole 21 3 9 2) = Inl DbUpdateException \<and>
   length (filter (sameTriple (demoUserRole 21 3 9 2))
     (UserRoles (stateAfter (demoDb\<lparr>UserRoles := UserRoles demoDb @ [demoUserRole 20 3 9 2]\<rparr>)
        (AddUserRole (demoDb\<lparr>UserRoles := UserRoles demoDb @ [demoUserRole 20 3 9 2]\<rparr>)
           (demoUserRole 21 3 9 2))))) = 1 \<and>
   SeedUserRolesAsync demoEnv
     (emptyDb\<lparr>Organizations := [seedOrganization demoEnv], Users := [seedUser demoEnv ''hash''],
        Roles := seedRoles demoEnv\<rparr>) =
     Inr (emptyDb\<lparr>Organizations := [seedOrganization demoEnv],
        Users := [seedUser demoEnv ''hash''], Roles := seedRoles demoEnv,
        UserRoles := [seedUserRole demoEnv]\<rparr>) \<and>
   SeedUserRolesAsync demoEnv
     (emptyDb\<lparr>Organizations := [seedOrganization demoEnv], Users := [seedUser demoEnv ''hash''],
        Roles := seedRoles demoEnv, UserRoles := [seedUserRole demoEnv]\<rparr>) =
     Inr (emptyDb\<lparr>Organizations := [seedOrganization demoEnv],
        Users := [seedUser demoEnv ''hash''], Roles := seedRoles demoEnv,
        UserRoles := [seedUserRole demoEnv]\<rparr>)"
proof -
  let ?one = "demoUserRole 20 3 9 2" and ?two = "demoUserRole 21 3 9 2"
  let ?dbOne = "demoDb\<lparr>UserRoles := UserRoles demoDb @ [?one]\<rparr>"
  let ?base = "emptyDb\<lparr>Organizations := [seedOrganization demoEnv],
        Users := [seedUser demoEnv ''hash''], Roles := seedRoles demoEnv\<rparr>"
  let ?seeded = "emptyDb\<lparr>Organizations := [seedOrganization demoEnv],
        Users := [seedUser demoEnv ''hash''], Roles := seedRoles demoEnv,
        UserRoles := [seedUserRole demoEnv]\<rparr>"
  have first: "AddUserRole demoDb ?one = Inr ?dbOne"
    unfolding AddUserRole_accepts using demo_cross_organization(4-7) demo_cross_organization(1,2)
    by simp
  have same: "sameTriple ?two ?one"
    by (simp add: sameTriple_def demoUserRole_def)
  have seed: "SeedUserRolesAsync demoEnv ?base = Inr ?seeded"
    using SeedUserRolesAsync_fresh [of ?base demoEnv demoEnv demoEnv "''hash''" demoEnv]
    by (simp add: emptyDb_def)
  note a = second_assignment_changes_nothing [where before = demoDb and assigned = ?one
      and db = ?dbOne and ur = ?two and userId = 3 and orgId = 1 and envA = demoEnv
      and env = demoEnv, THEN conjunct1, rule_format, OF conjI [OF first same]]
  note b = second_assignment_changes_nothing [where before = ?base and assigned = ?one
      and db = ?seeded and ur = ?two and userId = 3 and orgId = 1 and envA = demoEnv
      and env = demoEnv, THEN conjunct2, rule_format, OF seed]
  show ?thesis
    using first same seed a [THEN conjunct1] a [THEN conjunct2, THEN conjunct2, THEN conjunct1]
      b [THEN conjunct1]
    by (intro conjI)
qed

subsection \<open>Ownership of the seeded rows\<close>

lemma seedRoleFunctions_references:
  assumes "rf \<in> set (seedRoleFunctions env)"
  shows "RoleFunction.RoleId rf \<in> set (map Id (seedRoles env'))"
    and "FunctionId rf \<in> set GetAllFunctionIds"
proof -
  have "(RoleFunction.RoleId rf, FunctionId rf) \<in>
      set (map (\<lambda>rf. (RoleFunction.RoleId rf, FunctionId rf)) (seedRoleFunctions env))"
    using assms by force
  then have p: "(RoleFunction.RoleId rf, FunctionId rf) \<in>
      Pair SeedIds_Roles_SuperAdmin ` set GetAllFunctionIds \<union>
      Pair SeedIds_Roles_UserAdmin ` set userAdminFunctionIds \<union>
      Pair SeedIds_Roles_OrgAdmin ` set orgAdminFunctionIds \<union>
      Pair SeedIds_Roles_Viewer ` set viewerFunctionIds"
    unfolding seedRoleFunctions_grants by (simp add: Un_assoc)
  then show "RoleFunction.RoleId rf \<in> set (map Id (seedRoles env'))"
    unfolding seedRoles_Ids by auto
  have sub: "set userAdminFunctionIds \<subseteq> set GetAllFunctionIds"
    "set orgAdminFunctionIds \<subseteq> set GetAllFunctionIds"
    "set viewerFunctionIds \<subseteq> set GetAllFunctionIds"
    by (simp_all add: userAdminFunctionIds_def orgAdminFunctionIds_def viewerFunctionIds_def
        GetAllFunctionIds_def)
  from p sub show "FunctionId rf \<in> set GetAllFunctionIds"
    by auto
qed

lemma GetSystemFunctions_OrganizationId:
  "list_all (\<lambda>f. Function.OrganizationId f = SeedIds_Organizations_Rugertek)
     (GetSystemFunctions env)"
  by (simp add: GetSystemFunctions_def newFunction_def Let_def)

lemma seedRoles_OrganizationId:
  "list_all (\<lambda>r. Role.OrganizationId r = SeedIds_Organizations_Rugertek) (seedRoles env)"
  by (simp add: seedRoles_def newRole_def Let_def)

text \<open>
  Claim C10. After a first run of the seeder on an empty database there is one
  organization, Rugertek, and every function, every role, the membership and the role
  assignment carry its \<open>Id\<close> as \<open>OrganizationId\<close>. The references are not dangling: the
  users of the membership and of the assignment exist, the role of the assignment
  exists, and every \<open>RoleFunction\<close> row points to an existing role and an existing
  function, both of Rugertek; the stored \<open>Id\<close>s of roles and of functions are distinct, so
  each reference picks one row.
\<close>

theorem seeded_rows_belong_to_Rugertek:
  assumes "distinct (map (newGuid env) [0..<77])"
  shows "\<exists>db. SeedAsync fw env emptyDb = Inr db \<and>
     map Id (Organizations db) = [SeedIds_Organizations_Rugertek] \<and>
     distinct (map Id (Roles db)) \<and> distinct (map Id (Functions db)) \<and>
     (\<forall>f \<in> set (Functions db). Function.OrganizationId f = SeedIds_Organizations_Rugertek) \<and>
     (\<forall>r \<in> set (Roles db). Role.OrganizationId r = SeedIds_Organizations_Rugertek) \<and>
     (\<forall>m \<in> set (OrganizationMemberships db).
        OrganizationMembership.OrganizationId m = SeedIds_Organizations_Rugertek \<and>
        OrganizationMembership.UserId m \<in> set (map Id (Users db))) \<and>
     (\<forall>ur \<in> set (UserRoles db).
        UserRole.OrganizationId ur = SeedIds_Organizations_Rugertek \<and>
        UserRole.RoleId ur \<in> set (map Id (Roles db)) \<and>
        UserRole.UserId ur \<in> set (map Id (Users db))) \<and>
     (\<forall>rf \<in> set (RoleFunctions db).
        RoleFunction.RoleId rf \<in> set (map Id (Roles db)) \<and>
        FunctionId rf \<in> set (map Id (Functions db)))"
proof -
  obtain h db where run: "SeedAsync fw env emptyDb = Inr db"
    and db: "db = \<lparr>Organizations = [seedOrganization env],
            Users = [seedUser env h],
            OrganizationMemberships = [seedMembership env],
            Functions = GetSystemFunctions env,
            Roles = seedRoles env,
            RoleFunctions = seedRoleFunctions env,
            UserRoles = [seedUserRole env]\<rparr>"
    using SeedAsync_emptyDb [OF assms, of fw] by blast
  have t: "Organizations db = [seedOrganization env]" "Users db = [seedUser env h]"
    "OrganizationMemberships db = [seedMembership env]" "Functions db = GetSystemFunctions env"
    "Roles db = seedRoles env" "RoleFunctions db = seedRoleFunctions env"
    "UserRoles db = [seedUserRole env]"
    by (simp_all add: db)
  have o: "map Id (Organizations db) = [SeedIds_Organizations_Rugertek]"
    by (simp add: t seedOrganization_def)
  have d: "distinct (map Id (Roles db))" "distinct (map Id (Functions db))"
    unfolding t GetSystemFunctions_Ids
    by (rule distinct_seedRoles_Ids, rule distinct_GetAllFunctionIds)
  have f: "\<forall>f \<in> set (Functions db). Function.OrganizationId f = SeedIds_Organizations_Rugertek"
    unfolding t using GetSystemFunctions_OrganizationId [of env] unfolding list_all_iff .
  have r: "\<forall>r \<in> set (Roles db). Role.OrganizationId r = SeedIds_Organizations_Rugertek"
    unfolding t using seedRoles_OrganizationId [of env] unfolding list_all_iff .
  have m: "\<forall>m \<in> set (OrganizationMemberships db).
        OrganizationMembership.OrganizationId m = SeedIds_Organizations_Rugertek \<and>
        OrganizationMembership.UserId m \<in> set (map Id (Users db))"
    by (simp add: t seedMembership_def seedUser_def)
  have u: "\<forall>ur \<in> set (UserRoles db).
        UserRole.OrganizationId ur = SeedIds_Organizations_Rugertek \<and>
        UserRole.RoleId ur \<in> set (map Id (Roles db)) \<and>
        UserRole.UserId ur \<in> set (map Id (Users db))"
    by (simp add: t seedUserRole_def seedUser_def seedRoles_Ids)
  have g: "\<forall>rf \<in> set (RoleFunctions db).
        RoleFunction.RoleId rf \<in> set (map Id (Roles db)) \<and>
        FunctionId rf \<in> set (map Id (Functions db))"
    unfolding t GetSystemFunctions_Ids
    using seedRoleFunctions_references(1) [of _ env env]
      seedRoleFunctions_references(2) [of _ env]
    by blast
  from run o d f r m u g show ?thesis
    by (intro exI [of _ db] conjI)
qed

theorem seeded_rows_belong_to_Rugertek_witness:
  "distinct (map (newGuid demoEnv) [0..<77]) \<and>
   (\<exists>db. SeedAsync demoFramework demoEnv emptyDb = Inr db \<and>
     map Id (Organizations db) = [SeedIds_Organizations_Rugertek] \<and>
     distinct (map Id (Roles db)) \<and> distinct (map Id (Functions db)) \<and>
     (\<forall>f \<in> set (Functions db). Function.OrganizationId f = SeedIds_Organizations_Rugertek) \<and>
     (\<forall>r \<in> set (Roles db). Role.OrganizationId r = SeedIds_Organizations_Rugertek) \<and>
     (\<forall>m \<in> set (OrganizationMemberships db).
        OrganizationMembership.OrganizationId m = SeedIds_Organizations_Rugertek \<and>
        OrganizationMembership.UserId m \<in> set (map Id (Users db))) \<and>
     (\<forall>ur \<in> set (UserRoles db).
        UserRole.OrganizationId ur = SeedIds_Organizations_Rugertek \<and>
        UserRole.RoleId ur \<in> set (map Id (Roles db)) \<and>
        UserRole.UserId ur \<in> set (map Id (Users db))) \<and>
     (\<forall>rf \<in> set (RoleFunctions db).
        RoleFunction.RoleId rf \<in> set (map Id (Roles db)) \<and>
        FunctionId rf \<in> set (map Id (Functions db))))"
  using demoEnv_distinct
    seeded_rows_belong_to_Rugertek [OF demoEnv_distinct, of demoFramework]
  by (rule conjI)

end
